theory Spec2Isabelle
  imports Complex_Main "HOL-Library.AList" "HOL-Library.Sublist"
begin

section \<open>Python values used by the record store\<close>

text \<open>
  The store of \<^verbatim>\<open>models.py\<close> works on Python integers (unbounded, type \<open>int\<close>),
  strings, floats and dictionaries. This section fixes how each is represented.
\<close>

subsection \<open>Floats\<close>

text \<open>
  A Python float is an IEEE 754 binary64 value. A finite float is represented by the
  rational number it denotes (the two zeros are one value, as under Python's \<^verbatim>\<open>==\<close>);
  the infinities and NaN are separate constructors. Every arithmetic operation computes
  the exact rational result and rounds it to the nearest binary64 value, ties to even
  (\<open>binary64\<close>): 53 significant bits, smallest exponent \<open>-1074\<close>, overflow at \<open>2 ^ 1024\<close>.
\<close>

datatype py_error = OverflowError | ZeroDivisionError

datatype pyfloat = Fl rat | PosInf | NegInf | NaN

definition pow2 :: "int \<Rightarrow> rat" where
  "pow2 e = (if 0 \<le> e then 2 ^ nat e else 1 / 2 ^ nat (- e))"

text \<open>The number of binary digits of a positive integer.\<close>

function bit_length :: "int \<Rightarrow> int" where
  "bit_length n = (if n \<le> 0 then 0 else 1 + bit_length (n div 2))"
  by pat_completeness auto
termination
  by (relation "measure nat") auto

declare bit_length.simps [simp del]

text \<open>
  \<open>ilog2 q\<close> is \<open>\<lfloor>log\<^sub>2 q\<rfloor>\<close> for a positive rational \<open>q\<close>: one less than the number of
  digits of \<open>\<lfloor>q\<rfloor>\<close> when \<open>1 \<le> q\<close>, and \<open>- \<lceil>log\<^sub>2 (1 / q)\<rceil>\<close> below.
\<close>

definition ilog2 :: "rat \<Rightarrow> int" where
  "ilog2 q =
     (if 1 \<le> q then bit_length \<lfloor>q\<rfloor> - 1 else - bit_length (\<lceil>1 / q\<rceil> - 1))"

definition round_half_even :: "rat \<Rightarrow> int" where
  "round_half_even q =
     (let f = \<lfloor>q\<rfloor>; d = q - of_int f
      in if d < 1 / 2 then f
         else if 1 / 2 < d then f + 1
         else if even f then f else f + 1)"

definition binary64 :: "rat \<Rightarrow> rat" where
  "binary64 q =
     (if q = 0 then 0
      else let t = max (ilog2 \<bar>q\<bar> - 52) (- 1074)
           in sgn q * of_int (round_half_even (\<bar>q\<bar> / pow2 t)) * pow2 t)"

text \<open>
  A rounded value is out of range when its magnitude reaches \<open>2 ^ 1024\<close>, that is when
  its binary logarithm is at least 1024.
\<close>

definition out_of_range :: "rat \<Rightarrow> bool" where
  "out_of_range r = (r \<noteq> 0 \<and> 1024 \<le> ilog2 \<bar>r\<bar>)"

text \<open>The result of a float operation whose exact value is \<open>q\<close>: overflow gives an infinity.\<close>

definition fl :: "rat \<Rightarrow> pyfloat" where
  "fl q =
     (let r = binary64 q
      in if out_of_range r then (if 0 < r then PosInf else NegInf) else Fl r)"

text \<open>
  Converting an integer operand to float (what \<^verbatim>\<open>float * int\<close> and \<^verbatim>\<open>float / int\<close> do
  first) rounds the same way, but raises \<^verbatim>\<open>OverflowError\<close> instead of producing an infinity.
\<close>

definition float_of_int :: "int \<Rightarrow> py_error + pyfloat" where
  "float_of_int i =
     (let r = binary64 (of_int i)
      in if out_of_range r then Inl OverflowError else Inr (Fl r))"

fun float_sgn :: "pyfloat \<Rightarrow> rat" where
  "float_sgn (Fl a) = sgn a"
| "float_sgn PosInf = 1"
| "float_sgn NegInf = - 1"
| "float_sgn NaN = 0"

fun float_add :: "pyfloat \<Rightarrow> pyfloat \<Rightarrow> pyfloat" where
  "float_add (Fl a) (Fl b) = fl (a + b)"
| "float_add NaN y = NaN"
| "float_add x NaN = NaN"
| "float_add PosInf NegInf = NaN"
| "float_add NegInf PosInf = NaN"
| "float_add PosInf y = PosInf"
| "float_add NegInf y = NegInf"
| "float_add x PosInf = PosInf"
| "float_add x NegInf = NegInf"

fun float_mul :: "pyfloat \<Rightarrow> pyfloat \<Rightarrow> pyfloat" where
  "float_mul (Fl a) (Fl b) = fl (a * b)"
| "float_mul NaN y = NaN"
| "float_mul x NaN = NaN"
| "float_mul x y =
     (if float_sgn x * float_sgn y = 0 then NaN
      else if 0 < float_sgn x * float_sgn y then PosInf else NegInf)"

text \<open>Python's \<^verbatim>\<open>/\<close> on floats raises on a zero divisor before anything else.\<close>

fun float_truediv :: "pyfloat \<Rightarrow> pyfloat \<Rightarrow> py_error + pyfloat" where
  "float_truediv x (Fl b) =
     (if b = 0 then Inl ZeroDivisionError
      else case x of
        Fl a \<Rightarrow> Inr (fl (a / b))
      | NaN \<Rightarrow> Inr NaN
      | _ \<Rightarrow> Inr (if 0 < float_sgn x * sgn b then PosInf else NegInf))"
| "float_truediv x NaN = Inr NaN"
| "float_truediv (Fl a) y = Inr (Fl 0)"
| "float_truediv x y = Inr NaN"

text \<open>
  \<^verbatim>\<open>round(x, 2)\<close>: the decimal with two fractional digits nearest to the exact value of
  \<open>x\<close> (ties to even), converted back to a float; infinities and NaN round to themselves.
\<close>

definition float_round2 :: "pyfloat \<Rightarrow> pyfloat" where
  "float_round2 x =
     (case x of Fl a \<Rightarrow> fl (of_int (round_half_even (a * 100)) / 100) | _ \<Rightarrow> x)"

text \<open>Truth value of a float: zero is false, everything else (NaN included) is true.\<close>

fun float_truthy :: "pyfloat \<Rightarrow> bool" where
  "float_truthy (Fl a) = (a \<noteq> 0)"
| "float_truthy x = True"

subsection \<open>Strings\<close>

text \<open>
  A string is a list of characters, each \<open>char\<close> standing for the code point with the same
  number (0 to 255). On these code points \<^verbatim>\<open>str.lower\<close> maps \<open>A\<close> to \<open>Z\<close> and the
  capital letters 192 to 222 except the multiplication sign 215 to the code point 32 above,
  and leaves every other character as it is.
\<close>

definition char_lower :: "char \<Rightarrow> char" where
  "char_lower c =
     (let n = of_char c :: nat
      in if (65 \<le> n \<and> n \<le> 90) \<or> (192 \<le> n \<and> n \<le> 222 \<and> n \<noteq> 215)
         then char_of (n + 32) else c)"

definition lower :: "string \<Rightarrow> string" where
  "lower s = map char_lower s"

text \<open>\<^verbatim>\<open>q in s\<close> on strings: \<open>q\<close> occurs in \<open>s\<close> as a contiguous block.\<close>

fun str_in :: "string \<Rightarrow> string \<Rightarrow> bool" where
  "str_in q [] = (q = [])"
| "str_in q (c # cs) = (prefix q (c # cs) \<or> str_in q cs)"

subsection \<open>Dictionaries\<close>

text \<open>
  A Python dictionary keeps its entries in insertion order, and iteration follows that
  order, so a table is an association list. Assigning to a key that is present replaces
  the value in place, assigning to a new key appends an entry (\<open>AList.update\<close>), and
  \<^verbatim>\<open>del\<close> removes the entry of a key (\<open>AList.delete\<close>). The keys of a dictionary are
  distinct; \<open>dict_ok\<close> says that an association list represents one.
\<close>

type_synonym ('k, 'v) dict = "('k \<times> 'v) list"

definition dict_ok :: "('k, 'v) dict \<Rightarrow> bool" where
  "dict_ok d = distinct (map fst d)"

abbreviation dict_get :: "('k, 'v) dict \<Rightarrow> 'k \<Rightarrow> 'v option" where
  "dict_get d k \<equiv> map_of d k"

abbreviation dict_values :: "('k, 'v) dict \<Rightarrow> 'v list" where
  "dict_values d \<equiv> map snd d"

abbreviation dict_keys :: "('k, 'v) dict \<Rightarrow> 'k list" where
  "dict_keys d \<equiv> map fst d"

definition dict_contains :: "'k \<Rightarrow> ('k, 'v) dict \<Rightarrow> bool" where
  "dict_contains k d = (map_of d k \<noteq> None)"

abbreviation dict_set :: "'k \<Rightarrow> 'v \<Rightarrow> ('k, 'v) dict \<Rightarrow> ('k, 'v) dict" where
  "dict_set k v d \<equiv> AList.update k v d"

abbreviation dict_del :: "'k \<Rightarrow> ('k, 'v) dict \<Rightarrow> ('k, 'v) dict" where
  "dict_del k d \<equiv> AList.delete k d"

text \<open>\<^verbatim>\<open>for k in to_delete: del d[k]\<close>\<close>

fun dict_del_all :: "'k list \<Rightarrow> ('k, 'v) dict \<Rightarrow> ('k, 'v) dict" where
  "dict_del_all [] d = d"
| "dict_del_all (k # ks) d = dict_del_all ks (dict_del k d)"

section \<open>The data store\<close>

text \<open>
  The four record kinds of \<^verbatim>\<open>models.py\<close> (dictionaries with fixed keys there) and the
  \<^verbatim>\<open>DataStore\<close> object. Field names carry a one-letter prefix of their kind, since the
  source uses \<^verbatim>\<open>id\<close> and \<^verbatim>\<open>name\<close> in several kinds. Timestamps are the strings that
  \<^verbatim>\<open>datetime.now().isoformat()\<close> returns; every operation that reads the clock takes the
  strings it reads as arguments, one per call of \<^verbatim>\<open>datetime.now()\<close>.
\<close>

record student =
  s_id :: int
  s_name :: string
  s_email :: string
  s_phone :: string
  s_address :: string
  s_created_at :: string
  s_updated_at :: string

record course =
  c_id :: int
  c_code :: string
  c_name :: string
  c_description :: string
  c_credits :: int
  c_created_at :: string
  c_updated_at :: string

record enrollment =
  e_id :: int
  e_student_id :: int
  e_course_id :: int
  e_enrolled_at :: string

record grade =
  g_id :: int
  g_student_id :: int
  g_course_id :: int
  g_letter_grade :: string
  g_points :: pyfloat
  g_created_at :: string
  g_updated_at :: string

record data_store =
  students :: "(int, student) dict"
  courses :: "(int, course) dict"
  enrollments :: "(int, enrollment) dict"
  grades :: "(int, grade) dict"
  next_student_id :: int
  next_course_id :: int
  next_enrollment_id :: int
  next_grade_id :: int

text \<open>\<^verbatim>\<open>DataStore.__init__\<close>\<close>

definition init_store :: data_store where
  "init_store =
     \<lparr>students = [], courses = [], enrollments = [], grades = [],
      next_student_id = 1, next_course_id = 1, next_enrollment_id = 1, next_grade_id = 1\<rparr>"

section \<open>Students\<close>

text \<open>
  Every operation takes the store and returns its result together with the store it
  leaves; a query only returns its result. The record a Python call returns is the
  object held in the table: the model returns its value at the time of the return.
\<close>

definition Student_create ::
  "string \<Rightarrow> string \<Rightarrow> string \<Rightarrow> string \<Rightarrow> string \<Rightarrow> string \<Rightarrow> data_store
     \<Rightarrow> student \<times> data_store" where
  "Student_create name email phone address now1 now2 s =
     (let student_id = next_student_id s;
          s1 = s\<lparr>next_student_id := next_student_id s + 1\<rparr>;
          student = \<lparr>s_id = student_id, s_name = name, s_email = email, s_phone = phone,
                     s_address = address, s_created_at = now1, s_updated_at = now2\<rparr>
      in (student, s1\<lparr>students := dict_set student_id student (students s1)\<rparr>))"

definition Student_get :: "data_store \<Rightarrow> int \<Rightarrow> student option" where
  "Student_get s student_id = dict_get (students s) student_id"

definition Student_get_all :: "data_store \<Rightarrow> student list" where
  "Student_get_all s = dict_values (students s)"

definition Student_update ::
  "int \<Rightarrow> string \<Rightarrow> string \<Rightarrow> string \<Rightarrow> string \<Rightarrow> string \<Rightarrow> data_store
     \<Rightarrow> student option \<times> data_store" where
  "Student_update student_id name email phone address now s =
     (case dict_get (students s) student_id of
        None \<Rightarrow> (None, s)
      | Some student \<Rightarrow>
          let student' = student\<lparr>s_name := name, s_email := email, s_phone := phone,
                                 s_address := address, s_updated_at := now\<rparr>
          in (Some student', s\<lparr>students := dict_set student_id student' (students s)\<rparr>))"

definition Student_search :: "string \<Rightarrow> data_store \<Rightarrow> student list" where
  "Student_search query s =
     (if query = [] then Student_get_all s
      else let q = lower query
           in filter (\<lambda>student. str_in q (lower (s_name student)) \<or>
                                  str_in q (lower (s_email student)))
                (dict_values (students s)))"

section \<open>Courses\<close>

definition Course_create ::
  "string \<Rightarrow> string \<Rightarrow> string \<Rightarrow> int \<Rightarrow> string \<Rightarrow> string \<Rightarrow> data_store
     \<Rightarrow> course \<times> data_store" where
  "Course_create code name description credits now1 now2 s =
     (let course_id = next_course_id s;
          s1 = s\<lparr>next_course_id := next_course_id s + 1\<rparr>;
          course = \<lparr>c_id = course_id, c_code = code, c_name = name,
                    c_description = description, c_credits = credits,
                    c_created_at = now1, c_updated_at = now2\<rparr>
      in (course, s1\<lparr>courses := dict_set course_id course (courses s1)\<rparr>))"

definition Course_get :: "data_store \<Rightarrow> int \<Rightarrow> course option" where
  "Course_get s course_id = dict_get (courses s) course_id"

definition Course_get_all :: "data_store \<Rightarrow> course list" where
  "Course_get_all s = dict_values (courses s)"

definition Course_update ::
  "int \<Rightarrow> string \<Rightarrow> string \<Rightarrow> string \<Rightarrow> int \<Rightarrow> string \<Rightarrow> data_store
     \<Rightarrow> course option \<times> data_store" where
  "Course_update course_id code name description credits now s =
     (case dict_get (courses s) course_id of
        None \<Rightarrow> (None, s)
      | Some course \<Rightarrow>
          let course' = course\<lparr>c_code := code, c_name := name, c_description := description,
                               c_credits := credits, c_updated_at := now\<rparr>
          in (Some course', s\<lparr>courses := dict_set course_id course' (courses s)\<rparr>))"

section \<open>Enrollments\<close>

text \<open>
  \<^verbatim>\<open>Enrollment.create\<close> scans the table in order and returns the first enrollment of the
  pair; only when there is none does it take an identifier and insert.
\<close>

definition Enrollment_create ::
  "int \<Rightarrow> int \<Rightarrow> string \<Rightarrow> data_store \<Rightarrow> enrollment \<times> data_store" where
  "Enrollment_create student_id course_id now s =
     (case find (\<lambda>e. e_student_id e = student_id \<and> e_course_id e = course_id)
             (dict_values (enrollments s)) of
        Some e \<Rightarrow> (e, s)
      | None \<Rightarrow>
          let enrollment_id = next_enrollment_id s;
              s1 = s\<lparr>next_enrollment_id := next_enrollment_id s + 1\<rparr>;
              e = \<lparr>e_id = enrollment_id, e_student_id = student_id,
                   e_course_id = course_id, e_enrolled_at = now\<rparr>
          in (e, s1\<lparr>enrollments := dict_set enrollment_id e (enrollments s1)\<rparr>))"

definition Enrollment_get :: "data_store \<Rightarrow> int \<Rightarrow> enrollment option" where
  "Enrollment_get s enrollment_id = dict_get (enrollments s) enrollment_id"

definition Enrollment_get_all :: "data_store \<Rightarrow> enrollment list" where
  "Enrollment_get_all s = dict_values (enrollments s)"

definition Enrollment_get_by_student :: "data_store \<Rightarrow> int \<Rightarrow> enrollment list" where
  "Enrollment_get_by_student s student_id =
     filter (\<lambda>e. e_student_id e = student_id) (dict_values (enrollments s))"

definition Enrollment_get_by_course :: "data_store \<Rightarrow> int \<Rightarrow> enrollment list" where
  "Enrollment_get_by_course s course_id =
     filter (\<lambda>e. e_course_id e = course_id) (dict_values (enrollments s))"

definition Enrollment_delete_by_student :: "int \<Rightarrow> data_store \<Rightarrow> data_store" where
  "Enrollment_delete_by_student student_id s =
     (let to_delete = dict_keys (filter (\<lambda>(eid, e). e_student_id e = student_id)
                                   (enrollments s))
      in s\<lparr>enrollments := dict_del_all to_delete (enrollments s)\<rparr>)"

definition Enrollment_delete_by_course :: "int \<Rightarrow> data_store \<Rightarrow> data_store" where
  "Enrollment_delete_by_course course_id s =
     (let to_delete = dict_keys (filter (\<lambda>(eid, e). e_course_id e = course_id)
                                   (enrollments s))
      in s\<lparr>enrollments := dict_del_all to_delete (enrollments s)\<rparr>)"

section \<open>Grades\<close>

definition GRADE_POINTS :: "(string, pyfloat) dict" where
  "GRADE_POINTS =
     [(''A+'', fl 4), (''A'', fl 4), (''A-'', fl (37 / 10)),
      (''B+'', fl (33 / 10)), (''B'', fl 3), (''B-'', fl (27 / 10)),
      (''C+'', fl (23 / 10)), (''C'', fl 2), (''C-'', fl (17 / 10)),
      (''D+'', fl (13 / 10)), (''D'', fl 1), (''D-'', fl (7 / 10)),
      (''F'', fl 0)]"

definition letter_to_points :: "string \<Rightarrow> pyfloat" where
  "letter_to_points letter_grade =
     (case dict_get GRADE_POINTS letter_grade of None \<Rightarrow> Fl 0 | Some p \<Rightarrow> p)"

text \<open>
  \<^verbatim>\<open>points or Grade.letter_to_points(letter_grade)\<close>: the left operand when it is true,
  the right one when it is \<^verbatim>\<open>None\<close> or a false float.
\<close>

definition points_or_lookup :: "pyfloat option \<Rightarrow> string \<Rightarrow> pyfloat" where
  "points_or_lookup points letter_grade =
     (case points of
        None \<Rightarrow> letter_to_points letter_grade
      | Some p \<Rightarrow> if float_truthy p then p else letter_to_points letter_grade)"

text \<open>
  The loop of \<^verbatim>\<open>Grade.create\<close>: the first entry whose value satisfies \<open>P\<close> is changed
  in place by \<open>f\<close> and returned; \<open>None\<close> when the loop falls through.
\<close>

fun update_first ::
  "('v \<Rightarrow> bool) \<Rightarrow> ('v \<Rightarrow> 'v) \<Rightarrow> ('k, 'v) dict \<Rightarrow> ('v \<times> ('k, 'v) dict) option" where
  "update_first P f [] = None"
| "update_first P f ((k, v) # d) =
     (if P v then Some (f v, (k, f v) # d)
      else case update_first P f d of
             None \<Rightarrow> None
           | Some (r, d') \<Rightarrow> Some (r, (k, v) # d'))"

definition Grade_create ::
  "int \<Rightarrow> int \<Rightarrow> string \<Rightarrow> pyfloat option \<Rightarrow> string \<Rightarrow> string \<Rightarrow> data_store
     \<Rightarrow> grade \<times> data_store" where
  "Grade_create student_id course_id letter_grade points now1 now2 s =
     (case update_first
             (\<lambda>g. g_student_id g = student_id \<and> g_course_id g = course_id)
             (\<lambda>g. g\<lparr>g_letter_grade := letter_grade,
                     g_points := points_or_lookup points letter_grade,
                     g_updated_at := now1\<rparr>)
             (grades s) of
        Some (g, d) \<Rightarrow> (g, s\<lparr>grades := d\<rparr>)
      | None \<Rightarrow>
          let grade_id = next_grade_id s;
              s1 = s\<lparr>next_grade_id := next_grade_id s + 1\<rparr>;
              g = \<lparr>g_id = grade_id, g_student_id = student_id, g_course_id = course_id,
                   g_letter_grade = letter_grade,
                   g_points = points_or_lookup points letter_grade,
                   g_created_at = now1, g_updated_at = now2\<rparr>
          in (g, s1\<lparr>grades := dict_set grade_id g (grades s1)\<rparr>))"

definition Grade_get :: "data_store \<Rightarrow> int \<Rightarrow> grade option" where
  "Grade_get s grade_id = dict_get (grades s) grade_id"

definition Grade_get_all :: "data_store \<Rightarrow> grade list" where
  "Grade_get_all s = dict_values (grades s)"

definition Grade_get_by_student :: "data_store \<Rightarrow> int \<Rightarrow> grade list" where
  "Grade_get_by_student s student_id =
     filter (\<lambda>g. g_student_id g = student_id) (dict_values (grades s))"

definition Grade_get_by_course :: "data_store \<Rightarrow> int \<Rightarrow> grade list" where
  "Grade_get_by_course s course_id =
     filter (\<lambda>g. g_course_id g = course_id) (dict_values (grades s))"

definition Grade_get_by_student_course :: "data_store \<Rightarrow> int \<Rightarrow> int \<Rightarrow> grade option" where
  "Grade_get_by_student_course s student_id course_id =
     find (\<lambda>g. g_student_id g = student_id \<and> g_course_id g = course_id)
       (dict_values (grades s))"

definition Grade_delete :: "int \<Rightarrow> data_store \<Rightarrow> bool \<times> data_store" where
  "Grade_delete grade_id s =
     (if \<not> dict_contains grade_id (grades s) then (False, s)
      else (True, s\<lparr>grades := dict_del grade_id (grades s)\<rparr>))"

definition Grade_delete_by_student :: "int \<Rightarrow> data_store \<Rightarrow> data_store" where
  "Grade_delete_by_student student_id s =
     (let to_delete = dict_keys (filter (\<lambda>(gid, g). g_student_id g = student_id) (grades s))
      in s\<lparr>grades := dict_del_all to_delete (grades s)\<rparr>)"

definition Grade_delete_by_course :: "int \<Rightarrow> data_store \<Rightarrow> data_store" where
  "Grade_delete_by_course course_id s =
     (let to_delete = dict_keys (filter (\<lambda>(gid, g). g_course_id g = course_id) (grades s))
      in s\<lparr>grades := dict_del_all to_delete (grades s)\<rparr>)"

definition Grade_delete_by_student_course :: "int \<Rightarrow> int \<Rightarrow> data_store \<Rightarrow> data_store" where
  "Grade_delete_by_student_course student_id course_id s =
     (let to_delete = dict_keys (filter (\<lambda>(gid, g). g_student_id g = student_id \<and>
                                                       g_course_id g = course_id) (grades s))
      in s\<lparr>grades := dict_del_all to_delete (grades s)\<rparr>)"

section \<open>Cascading deletes\<close>

definition Student_delete :: "int \<Rightarrow> data_store \<Rightarrow> bool \<times> data_store" where
  "Student_delete student_id s =
     (if \<not> dict_contains student_id (students s) then (False, s)
      else let s1 = Enrollment_delete_by_student student_id s;
               s2 = Grade_delete_by_student student_id s1
           in (True, s2\<lparr>students := dict_del student_id (students s2)\<rparr>))"

definition Course_delete :: "int \<Rightarrow> data_store \<Rightarrow> bool \<times> data_store" where
  "Course_delete course_id s =
     (if \<not> dict_contains course_id (courses s) then (False, s)
      else let s1 = Enrollment_delete_by_course course_id s;
               s2 = Grade_delete_by_course course_id s1
           in (True, s2\<lparr>courses := dict_del course_id (courses s2)\<rparr>))"

definition Enrollment_delete :: "int \<Rightarrow> data_store \<Rightarrow> bool \<times> data_store" where
  "Enrollment_delete enrollment_id s =
     (case dict_get (enrollments s) enrollment_id of
        None \<Rightarrow> (False, s)
      | Some enrollment \<Rightarrow>
          let s1 = Grade_delete_by_student_course
                     (e_student_id enrollment) (e_course_id enrollment) s
          in (True, s1\<lparr>enrollments := dict_del enrollment_id (enrollments s1)\<rparr>))"

section \<open>Grade point average\<close>

text \<open>
  The loop of \<^verbatim>\<open>Student.calculate_gpa\<close> with its two accumulators. A grade whose course
  is gone is passed over. \<^verbatim>\<open>grade_points * credits\<close> converts the integer to a float
  first, which raises when it is too large; \<^verbatim>\<open>total_credits\<close> stays an integer.
\<close>

fun gpa_loop ::
  "(int, course) dict \<Rightarrow> grade list \<Rightarrow> pyfloat \<Rightarrow> int \<Rightarrow> py_error + (pyfloat \<times> int)" where
  "gpa_loop cs [] total_points total_credits = Inr (total_points, total_credits)"
| "gpa_loop cs (g # gs) total_points total_credits =
     (case dict_get cs (g_course_id g) of
        None \<Rightarrow> gpa_loop cs gs total_points total_credits
      | Some course \<Rightarrow>
          (case float_of_int (c_credits course) of
             Inl err \<Rightarrow> Inl err
           | Inr credits \<Rightarrow>
               gpa_loop cs gs
                 (float_add total_points
                    (float_mul (letter_to_points (g_letter_grade g)) credits))
                 (total_credits + c_credits course)))"

definition calculate_gpa :: "data_store \<Rightarrow> int \<Rightarrow> py_error + pyfloat" where
  "calculate_gpa s student_id =
     (let student_grades = Grade_get_by_student s student_id
      in if student_grades = [] then Inr (Fl 0)
         else case gpa_loop (courses s) student_grades (Fl 0) 0 of
                Inl err \<Rightarrow> Inl err
              | Inr (total_points, total_credits) \<Rightarrow>
                  if total_credits = 0 then Inr (Fl 0)
                  else case float_of_int total_credits of
                         Inl err \<Rightarrow> Inl err
                       | Inr d \<Rightarrow>
                           (case float_truediv total_points d of
                              Inl err \<Rightarrow> Inl err
                            | Inr q \<Rightarrow> Inr (float_round2 q)))"

section \<open>Runs of the store\<close>

text \<open>
  The store is a process-wide object that starts empty and is changed only by the
  operations above. An \<open>operation\<close> names one call of a mutating method with its
  arguments; \<open>run\<close> performs a sequence of calls in order. The states the program can be
  in are those of the form \<open>run ops init_store\<close>.
\<close>

datatype operation =
    StudentCreate string string string string string string
  | StudentUpdate int string string string string string
  | StudentDelete int
  | CourseCreate string string string int string string
  | CourseUpdate int string string string int string
  | CourseDelete int
  | EnrollmentCreate int int string
  | EnrollmentDelete int
  | EnrollmentDeleteByStudent int
  | EnrollmentDeleteByCourse int
  | GradeCreate int int string "pyfloat option" string string
  | GradeDelete int
  | GradeDeleteByStudent int
  | GradeDeleteByCourse int
  | GradeDeleteByStudentCourse int int

fun apply_op :: "operation \<Rightarrow> data_store \<Rightarrow> data_store" where
  "apply_op (StudentCreate name email phone address now1 now2) s =
     snd (Student_create name email phone address now1 now2 s)"
| "apply_op (StudentUpdate student_id name email phone address now) s =
     snd (Student_update student_id name email phone address now s)"
| "apply_op (StudentDelete student_id) s = snd (Student_delete student_id s)"
| "apply_op (CourseCreate code name description credits now1 now2) s =
     snd (Course_create code name description credits now1 now2 s)"
| "apply_op (CourseUpdate course_id code name description credits now) s =
     snd (Course_update course_id code name description credits now s)"
| "apply_op (CourseDelete course_id) s = snd (Course_delete course_id s)"
| "apply_op (EnrollmentCreate student_id course_id now) s =
     snd (Enrollment_create student_id course_id now s)"
| "apply_op (EnrollmentDelete enrollment_id) s = snd (Enrollment_delete enrollment_id s)"
| "apply_op (EnrollmentDeleteByStudent student_id) s =
     Enrollment_delete_by_student student_id s"
| "apply_op (EnrollmentDeleteByCourse course_id) s = Enrollment_delete_by_course course_id s"
| "apply_op (GradeCreate student_id course_id letter_grade points now1 now2) s =
     snd (Grade_create student_id course_id letter_grade points now1 now2 s)"
| "apply_op (GradeDelete grade_id) s = snd (Grade_delete grade_id s)"
| "apply_op (GradeDeleteByStudent student_id) s = Grade_delete_by_student student_id s"
| "apply_op (GradeDeleteByCourse course_id) s = Grade_delete_by_course course_id s"
| "apply_op (GradeDeleteByStudentCourse student_id course_id) s =
     Grade_delete_by_student_course student_id course_id s"

definition run :: "operation list \<Rightarrow> data_store \<Rightarrow> data_store" where
  "run ops s = fold apply_op ops s"

subsection \<open>Invariant of the tables\<close>

text \<open>
  A table is in order when its keys are distinct, every record carries its key as its
  identifier, every key is at least 1 and below the counter of its kind, and the counter
  is at least 1.
\<close>

definition table_inv :: "('v \<Rightarrow> int) \<Rightarrow> (int, 'v) dict \<Rightarrow> int \<Rightarrow> bool" where
  "table_inv ident d n =
     (dict_ok d \<and> 1 \<le> n \<and> (\<forall>(k, v) \<in> set d. ident v = k \<and> 1 \<le> k \<and> k < n))"

definition enrollment_pair :: "enrollment \<Rightarrow> int \<times> int" where
  "enrollment_pair e = (e_student_id e, e_course_id e)"

definition grade_pair :: "grade \<Rightarrow> int \<times> int" where
  "grade_pair g = (g_student_id g, g_course_id g)"

definition store_inv :: "data_store \<Rightarrow> bool" where
  "store_inv s =
     (table_inv s_id (students s) (next_student_id s) \<and>
      table_inv c_id (courses s) (next_course_id s) \<and>
      table_inv e_id (enrollments s) (next_enrollment_id s) \<and>
      table_inv g_id (grades s) (next_grade_id s) \<and>
      distinct (map enrollment_pair (dict_values (enrollments s))) \<and>
      distinct (map grade_pair (dict_values (grades s))))"

section \<open>The grade point average as the specification words it\<close>

text \<open>
  The grades that count for a student: those of the student whose course is in the
  course table, each with its course, in table order.
\<close>

definition counted_grades :: "data_store \<Rightarrow> int \<Rightarrow> (grade \<times> course) list" where
  "counted_grades s student_id =
     List.map_filter
       (\<lambda>g. case dict_get (courses s) (g_course_id g) of
               None \<Rightarrow> None
             | Some c \<Rightarrow> Some (g, c))
       (filter (\<lambda>g. g_student_id g = student_id) (dict_values (grades s)))"

text \<open>The numerator: the float sum, from 0 and in order, of points times credits.\<close>

fun weighted_points :: "pyfloat \<Rightarrow> (grade \<times> course) list \<Rightarrow> py_error + pyfloat" where
  "weighted_points acc [] = Inr acc"
| "weighted_points acc ((g, c) # gcs) =
     (case float_of_int (c_credits c) of
        Inl err \<Rightarrow> Inl err
      | Inr credits \<Rightarrow>
          weighted_points
            (float_add acc (float_mul (letter_to_points (g_letter_grade g)) credits)) gcs)"

text \<open>The denominator: the integer sum of the credits.\<close>

definition total_credits_of :: "(grade \<times> course) list \<Rightarrow> int" where
  "total_credits_of gcs = sum_list (map (\<lambda>(g, c). c_credits c) gcs)"

definition gpa_by_spec :: "data_store \<Rightarrow> int \<Rightarrow> py_error + pyfloat" where
  "gpa_by_spec s student_id =
     (let gcs = counted_grades s student_id; D = total_credits_of gcs
      in case weighted_points (Fl 0) gcs of
           Inl err \<Rightarrow> Inl err
         | Inr N \<Rightarrow>
             if D = 0 then Inr (Fl 0)
             else case float_of_int D of
                    Inl err \<Rightarrow> Inl err
                  | Inr d \<Rightarrow>
                      (case float_truediv N d of
                         Inl err \<Rightarrow> Inl err
                       | Inr q \<Rightarrow> Inr (float_round2 q)))"

text \<open>
  Two stores that differ at most in the \<^verbatim>\<open>points\<close> fields of their grades.
\<close>

definition same_up_to_points :: "data_store \<Rightarrow> data_store \<Rightarrow> bool" where
  "same_up_to_points s s' =
     (students s = students s' \<and> courses s = courses s' \<and> enrollments s = enrollments s' \<and>
      next_student_id s = next_student_id s' \<and> next_course_id s = next_course_id s' \<and>
      next_enrollment_id s = next_enrollment_id s' \<and> next_grade_id s = next_grade_id s' \<and>
      map (\<lambda>(k, g). (k, g\<lparr>g_points := Fl 0\<rparr>)) (grades s) =
      map (\<lambda>(k, g). (k, g\<lparr>g_points := Fl 0\<rparr>)) (grades s'))"

section \<open>Example stores\<close>

text \<open>
  One student with an A in a course of 3 credits and a B in a course of 4 credits; a
  second student whose only grade refers to a course that is not in the table.
\<close>

definition gpa_example :: data_store where
  "gpa_example =
     run [StudentCreate ''John Smith'' ''john@example.com'' ''555'' ''Main St'' ''t0'' ''t0'',
          CourseCreate ''CS101'' ''Programming'' ''Intro'' 3 ''t1'' ''t1'',
          CourseCreate ''MA201'' ''Calculus'' ''Limits'' 4 ''t2'' ''t2'',
          GradeCreate 1 1 ''A'' None ''t3'' ''t3'',
          GradeCreate 1 2 ''B'' None ''t4'' ''t4'',
          StudentCreate ''Ann Lee'' ''josephine@example.com'' ''556'' ''High St'' ''t5'' ''t5'',
          GradeCreate 2 3 ''C'' None ''t6'' ''t6'',
          EnrollmentCreate 1 1 ''t7'',
          EnrollmentCreate 2 1 ''t8'',
          EnrollmentCreate 1 2 ''t9'']
       init_store"

section \<open>Evaluating float arithmetic\<close>

lemma bit_length_0: "bit_length 0 = 0"
  by (simp add: bit_length.simps)

lemma bit_length_1: "bit_length 1 = 1"
  by (simp add: bit_length.simps [of 1] bit_length_0)

lemma bit_length_One: "bit_length (numeral Num.One) = 1"
  using bit_length_1 by simp

lemma bit_length_Bit0: "bit_length (numeral (Num.Bit0 n)) = 1 + bit_length (numeral n)"
  by (subst bit_length.simps) simp

lemma bit_length_Bit1: "bit_length (numeral (Num.Bit1 n)) = 1 + bit_length (numeral n)"
  by (subst bit_length.simps) simp

lemma floor_rat_numeral: "\<lfloor>numeral a / numeral b :: rat\<rfloor> = numeral a div numeral b"
  using floor_divide_of_int_eq [of "numeral a" "numeral b", where ?'a = rat] by simp

lemma ceiling_rat_numeral: "\<lceil>numeral a / numeral b :: rat\<rceil> = - (- numeral a div numeral b)"
  using floor_divide_of_int_eq [of "- numeral a" "numeral b", where ?'a = rat]
  by (simp add: ceiling_def)

lemmas float_eval =
  fl_def out_of_range_def binary64_def ilog2_def pow2_def round_half_even_def Let_def
  bit_length_0 bit_length_1 bit_length_One bit_length_Bit0 bit_length_Bit1
  floor_rat_numeral ceiling_rat_numeral

lemma fl_0: "fl 0 = Fl 0" by (simp add: float_eval)
lemma fl_1: "fl 1 = Fl 1" by (simp add: float_eval)
lemma fl_2: "fl 2 = Fl 2" by (simp add: float_eval)
lemma fl_3: "fl 3 = Fl 3" by (simp add: float_eval)
lemma fl_4: "fl 4 = Fl 4" by (simp add: float_eval)
lemma fl_12: "fl 12 = Fl 12" by (simp add: float_eval)
lemma fl_24: "fl 24 = Fl 24" by (simp add: float_eval)

lemma letter_to_points_A: "letter_to_points ''A'' = Fl 4"
  by (simp add: letter_to_points_def GRADE_POINTS_def fl_4)

lemma letter_to_points_B: "letter_to_points ''B'' = Fl 3"
  by (simp add: letter_to_points_def GRADE_POINTS_def fl_3)

lemma letter_to_points_C: "letter_to_points ''C'' = Fl 2"
  by (simp add: letter_to_points_def GRADE_POINTS_def fl_2)

lemmas op_defs =
  Student_create_def Student_update_def Student_delete_def
  Course_create_def Course_update_def Course_delete_def
  Enrollment_create_def Enrollment_delete_def
  Enrollment_delete_by_student_def Enrollment_delete_by_course_def
  Grade_create_def Grade_delete_def Grade_delete_by_student_def
  Grade_delete_by_course_def Grade_delete_by_student_course_def





lemma gpa_example_eq:
  "gpa_example =
     \<lparr>students =
        [(1, \<lparr>s_id = 1, s_name = ''John Smith'', s_email = ''john@example.com'',
               s_phone = ''555'', s_address = ''Main St'',
               s_created_at = ''t0'', s_updated_at = ''t0''\<rparr>),
         (2, \<lparr>s_id = 2, s_name = ''Ann Lee'', s_email = ''josephine@example.com'',
               s_phone = ''556'', s_address = ''High St'',
               s_created_at = ''t5'', s_updated_at = ''t5''\<rparr>)],
      courses =
        [(1, \<lparr>c_id = 1, c_code = ''CS101'', c_name = ''Programming'',
               c_description = ''Intro'', c_credits = 3,
               c_created_at = ''t1'', c_updated_at = ''t1''\<rparr>),
         (2, \<lparr>c_id = 2, c_code = ''MA201'', c_name = ''Calculus'',
               c_description = ''Limits'', c_credits = 4,
               c_created_at = ''t2'', c_updated_at = ''t2''\<rparr>)],
      enrollments =
        [(1, \<lparr>e_id = 1, e_student_id = 1, e_course_id = 1, e_enrolled_at = ''t7''\<rparr>),
         (2, \<lparr>e_id = 2, e_student_id = 2, e_course_id = 1, e_enrolled_at = ''t8''\<rparr>),
         (3, \<lparr>e_id = 3, e_student_id = 1, e_course_id = 2, e_enrolled_at = ''t9''\<rparr>)],
      grades =
        [(1, \<lparr>g_id = 1, g_student_id = 1, g_course_id = 1, g_letter_grade = ''A'',
               g_points = Fl 4, g_created_at = ''t3'', g_updated_at = ''t3''\<rparr>),
         (2, \<lparr>g_id = 2, g_student_id = 1, g_course_id = 2, g_letter_grade = ''B'',
               g_points = Fl 3, g_created_at = ''t4'', g_updated_at = ''t4''\<rparr>),
         (3, \<lparr>g_id = 3, g_student_id = 2, g_course_id = 3, g_letter_grade = ''C'',
               g_points = Fl 2, g_created_at = ''t6'', g_updated_at = ''t6''\<rparr>)],
      next_student_id = 3, next_course_id = 3, next_enrollment_id = 4, next_grade_id = 4\<rparr>"
  by (simp add: gpa_example_def run_def init_store_def op_defs points_or_lookup_def
      letter_to_points_A letter_to_points_B letter_to_points_C Let_def)

lemma float_of_int_3: "float_of_int 3 = Inr (Fl 3)"
  by (simp add: float_of_int_def float_eval)

lemma float_of_int_4: "float_of_int 4 = Inr (Fl 4)"
  by (simp add: float_of_int_def float_eval)

lemma float_of_int_7: "float_of_int 7 = Inr (Fl 7)"
  by (simp add: float_of_int_def float_eval)

lemma fl_24_7: "fl (24 / 7) = Fl (7720456504063707 / 2251799813685248)"
  by (simp add: float_eval)

lemma float_round2_24_7:
  "float_round2 (Fl (7720456504063707 / 2251799813685248)) = fl (343 / 100)"
  by (simp add: float_round2_def float_eval)

lemma calculate_gpa_example_1: "calculate_gpa gpa_example 1 = Inr (fl (343 / 100))"
  by (simp add: gpa_example_eq calculate_gpa_def Grade_get_by_student_def
      letter_to_points_A letter_to_points_B float_of_int_3 float_of_int_4 float_of_int_7
      fl_12 fl_24 fl_24_7 float_round2_24_7)

lemma counted_grades_example_2: "counted_grades gpa_example 2 = []"
  by (simp add: gpa_example_eq counted_grades_def List.map_filter_def)

lemma grades_example_2: "Grade_get_by_student gpa_example 2 \<noteq> []"
  by (simp add: gpa_example_eq Grade_get_by_student_def)

section \<open>The loop computes the sums\<close>

lemma map_filter_Cons:
  "List.map_filter f (x # xs) =
     (case f x of None \<Rightarrow> List.map_filter f xs | Some y \<Rightarrow> y # List.map_filter f xs)"
  by (simp add: List.map_filter_def split: option.splits)

lemma gpa_loop_eq:
  "gpa_loop cs gs tp tc =
     (let gcs = List.map_filter
                  (\<lambda>g. case dict_get cs (g_course_id g) of
                          None \<Rightarrow> None
                        | Some c \<Rightarrow> Some (g, c)) gs
      in case weighted_points tp gcs of
           Inl err \<Rightarrow> Inl err
         | Inr N \<Rightarrow> Inr (N, tc + total_credits_of gcs))"
proof (induction gs arbitrary: tp tc)
  case Nil
  show ?case by (simp add: List.map_filter_def total_credits_of_def)
next
  case (Cons g gs)
  show ?case
  proof (cases "dict_get cs (g_course_id g)")
    case None
    then show ?thesis using Cons.IH [of tp tc] by (simp add: map_filter_Cons)
  next
    case (Some c)
    show ?thesis
    proof (cases "float_of_int (c_credits c)")
      case (Inl err)
      then show ?thesis using Some by (simp add: map_filter_Cons)
    next
      case (Inr cr)
      then show ?thesis
        using Some
          Cons.IH [of "float_add tp (float_mul (letter_to_points (g_letter_grade g)) cr)"
                      "tc + c_credits c"]
        by (simp add: map_filter_Cons total_credits_of_def Let_def split: sum.splits)
    qed
  qed
qed

lemma calculate_gpa_eq: "calculate_gpa s sid = gpa_by_spec s sid"
proof (cases "Grade_get_by_student s sid = []")
  case True
  then have "counted_grades s sid = []"
    by (simp add: counted_grades_def Grade_get_by_student_def List.map_filter_def)
  then show ?thesis using True
    by (simp add: calculate_gpa_def gpa_by_spec_def total_credits_of_def)
next
  case False
  then show ?thesis
    by (simp add: calculate_gpa_def gpa_by_spec_def gpa_loop_eq counted_grades_def
        Grade_get_by_student_def Let_def split: sum.splits)
qed

lemma weighted_points_ok:
  "\<forall>(g, c) \<in> set gcs. float_of_int (c_credits c) \<noteq> Inl OverflowError \<Longrightarrow>
     \<exists>N. weighted_points acc gcs = Inr N"
proof (induction gcs arbitrary: acc)
  case Nil
  show ?case by simp
next
  case (Cons gc gcs)
  obtain g c where gc: "gc = (g, c)" by (cases gc)
  from Cons.prems gc have "float_of_int (c_credits c) \<noteq> Inl OverflowError" by simp
  then obtain cr where cr: "float_of_int (c_credits c) = Inr cr"
    by (cases "float_of_int (c_credits c)") (auto simp: float_of_int_def Let_def split: if_splits)
  from Cons.prems have "\<forall>(g, c) \<in> set gcs. float_of_int (c_credits c) \<noteq> Inl OverflowError"
    by simp
  from Cons.IH [OF this] show ?case using gc cr by simp
qed

text \<open>
  Claim C1. For every store and every student id, \<open>calculate_gpa\<close> returns what the
  specification describes (\<open>gpa_by_spec\<close>): over the grades of the student whose course is
  still in the course table, \<open>N\<close> is the sum of \<open>letter_to_points\<close> times credits, \<open>D\<close> the
  sum of the credits, and the result is \<open>round(N / D, 2)\<close>, or \<open>0.0\<close> when \<open>D\<close> is zero.
  A grade whose course is gone is passed over. When \<open>D\<close> is zero and every counted credit
  value converts to a float (always so when no grade counts), the result is \<open>0.0\<close>. Grades
  A (3 credits) and B (4 credits) give the float \<open>3.43\<close>.
\<close>

theorem calculate_gpa_is_weighted_mean:
  "calculate_gpa s student_id = gpa_by_spec s student_id \<and>
   (total_credits_of (counted_grades s student_id) = 0 \<and>
    (\<forall>(g, c) \<in> set (counted_grades s student_id).
       float_of_int (c_credits c) \<noteq> Inl OverflowError)
    \<longrightarrow> calculate_gpa s student_id = Inr (Fl 0)) \<and>
   calculate_gpa gpa_example 1 = Inr (fl (343 / 100))"
proof (intro conjI impI)
  show "calculate_gpa s student_id = gpa_by_spec s student_id"
    by (rule calculate_gpa_eq)
next
  assume a: "total_credits_of (counted_grades s student_id) = 0 \<and>
    (\<forall>(g, c) \<in> set (counted_grades s student_id).
       float_of_int (c_credits c) \<noteq> Inl OverflowError)"
  then obtain N where "weighted_points (Fl 0) (counted_grades s student_id) = Inr N"
    using weighted_points_ok by blast
  then show "calculate_gpa s student_id = Inr (Fl 0)"
    using a by (simp add: calculate_gpa_eq gpa_by_spec_def)
next
  show "calculate_gpa gpa_example 1 = Inr (fl (343 / 100))"
    by (rule calculate_gpa_example_1)
qed

theorem calculate_gpa_is_weighted_mean_witness:
  "Grade_get_by_student gpa_example 2 \<noteq> [] \<and>
   counted_grades gpa_example 2 = [] \<and>
   total_credits_of (counted_grades gpa_example 2) = 0 \<and>
   calculate_gpa gpa_example 2 = Inr (Fl 0)"
proof -
  have h: "total_credits_of (counted_grades gpa_example 2) = 0 \<and>
    (\<forall>(g, c) \<in> set (counted_grades gpa_example 2).
       float_of_int (c_credits c) \<noteq> Inl OverflowError)"
    by (simp add: counted_grades_example_2 total_credits_of_def)
  with calculate_gpa_is_weighted_mean [of gpa_example 2]
  have "calculate_gpa gpa_example 2 = Inr (Fl 0)" by blast
  with h grades_example_2 counted_grades_example_2 show ?thesis by blast
qed

section \<open>Facts about dictionaries\<close>

lemma dict_del_filter: "dict_del k d = filter (\<lambda>p. fst p \<noteq> k) d"
  by (induction d) auto

lemma dict_del_all_filter: "dict_del_all ks d = filter (\<lambda>p. fst p \<notin> set ks) d"
proof (induction ks arbitrary: d)
  case Nil
  show ?case by simp
next
  case (Cons k ks)
  show ?case
    by (simp add: Cons.IH dict_del_filter)
qed

lemma dict_ok_key_value:
  "dict_ok d \<Longrightarrow> (k, v) \<in> set d \<Longrightarrow> (k, v') \<in> set d \<Longrightarrow> v = v'"
  unfolding dict_ok_def by (rule eq_key_imp_eq_value)

lemma dict_del_matching:
  assumes "dict_ok d"
  shows "dict_del_all (dict_keys (filter P d)) d = filter (\<lambda>p. \<not> P p) d"
proof -
  have "fst p \<notin> set (dict_keys (filter P d)) \<longleftrightarrow> \<not> P p" if "p \<in> set d" for p
  proof
    assume "fst p \<notin> set (dict_keys (filter P d))"
    with that show "\<not> P p" by force
  next
    assume np: "\<not> P p"
    show "fst p \<notin> set (dict_keys (filter P d))"
    proof
      assume "fst p \<in> set (dict_keys (filter P d))"
      then obtain q where q: "q \<in> set d" "P q" "fst q = fst p" by auto
      with that assms have "snd q = snd p"
        using dict_ok_key_value [of d "fst p" "snd q" "snd p"] by (metis prod.collapse)
      with q have "q = p" by (simp add: prod_eq_iff)
      with q np show False by simp
    qed
  qed
  then show ?thesis
    unfolding dict_del_all_filter by (intro filter_cong) auto
qed

lemma dict_ok_filter: "dict_ok d \<Longrightarrow> dict_ok (filter P d)"
  unfolding dict_ok_def by (rule distinct_map_filter)

section \<open>Cascading deletes\<close>

text \<open>
  Claim C5. For a student id present in the store, \<open>Student_delete\<close> returns true and
  leaves the store with that student, every enrollment of that student and every grade of
  that student removed; all other students, enrollments and grades stay as they are and in
  their order, and the courses and the four counters are unchanged. (The enrollment and
  grade tables are dictionaries: their keys are distinct.)
\<close>

theorem Student_delete_cascade:
  assumes "dict_contains student_id (students s)"
    and "dict_ok (enrollments s)" and "dict_ok (grades s)"
  shows "Student_delete student_id s =
    (True,
     s\<lparr>students := filter (\<lambda>(k, st). k \<noteq> student_id) (students s),
       enrollments := filter (\<lambda>(k, e). e_student_id e \<noteq> student_id) (enrollments s),
       grades := filter (\<lambda>(k, g). g_student_id g \<noteq> student_id) (grades s)\<rparr>)"
proof -
  have e: "dict_del_all
             (dict_keys (filter (\<lambda>(eid, e). e_student_id e = student_id) (enrollments s)))
             (enrollments s)
           = filter (\<lambda>(k, e). e_student_id e \<noteq> student_id) (enrollments s)"
    using dict_del_matching [OF assms(2), of "\<lambda>(eid, e). e_student_id e = student_id"]
    by (simp add: case_prod_unfold)
  have g: "dict_del_all
             (dict_keys (filter (\<lambda>(gid, g). g_student_id g = student_id) (grades s)))
             (grades s)
           = filter (\<lambda>(k, g). g_student_id g \<noteq> student_id) (grades s)"
    using dict_del_matching [OF assms(3), of "\<lambda>(gid, g). g_student_id g = student_id"]
    by (simp add: case_prod_unfold)
  have st: "dict_del student_id (students s)
            = filter (\<lambda>(k, st). k \<noteq> student_id) (students s)"
    by (simp add: dict_del_filter case_prod_unfold)
  show ?thesis
    using assms(1)
    by (simp add: Student_delete_def Enrollment_delete_by_student_def
        Grade_delete_by_student_def Let_def e g st)
qed

text \<open>
  Claim C6. For an enrollment id present in the store, \<open>Enrollment_delete\<close> returns true
  and leaves the store with that enrollment removed and with every grade removed whose
  student and course are those of the deleted enrollment; grades of every other pair, all
  other enrollments, the students, the courses and the counters are unchanged.
\<close>

theorem Enrollment_delete_cascade:
  assumes "dict_get (enrollments s) enrollment_id = Some e"
    and "dict_ok (grades s)"
  shows "Enrollment_delete enrollment_id s =
    (True,
     s\<lparr>grades := filter (\<lambda>(k, g). \<not> (g_student_id g = e_student_id e \<and>
                                       g_course_id g = e_course_id e)) (grades s),
       enrollments := filter (\<lambda>(k, e'). k \<noteq> enrollment_id) (enrollments s)\<rparr>)"
proof -
  have g: "dict_del_all
             (dict_keys (filter (\<lambda>(gid, g). g_student_id g = e_student_id e \<and>
                                           g_course_id g = e_course_id e) (grades s)))
             (grades s)
           = filter (\<lambda>(k, g). \<not> (g_student_id g = e_student_id e \<and>
                                   g_course_id g = e_course_id e)) (grades s)"
    using dict_del_matching [OF assms(2),
        of "\<lambda>(gid, g). g_student_id g = e_student_id e \<and> g_course_id g = e_course_id e"]
    by (simp add: case_prod_unfold)
  have en: "dict_del enrollment_id (enrollments s)
            = filter (\<lambda>(k, e'). k \<noteq> enrollment_id) (enrollments s)"
    by (simp add: dict_del_filter case_prod_unfold)
  show ?thesis
    using assms(1)
    by (simp add: Enrollment_delete_def Grade_delete_by_student_course_def Let_def g en)
qed

section \<open>Search\<close>

lemma str_in_sublist: "str_in q t \<longleftrightarrow> sublist q t"
  by (induction t) (auto simp: sublist_Cons_right)


theorem Student_delete_cascade_witness:
  "dict_contains 1 (students gpa_example) \<and>
   dict_ok (enrollments gpa_example) \<and> dict_ok (grades gpa_example) \<and>
   fst (Student_delete 1 gpa_example) = True \<and>
   dict_keys (students (snd (Student_delete 1 gpa_example))) = [2] \<and>
   dict_keys (enrollments (snd (Student_delete 1 gpa_example))) = [2] \<and>
   dict_keys (grades (snd (Student_delete 1 gpa_example))) = [3] \<and>
   courses (snd (Student_delete 1 gpa_example)) = courses gpa_example"
proof -
  have h1: "dict_contains 1 (students gpa_example)"
    by (simp add: gpa_example_eq dict_contains_def)
  have h2: "dict_ok (enrollments gpa_example)"
    by (simp add: gpa_example_eq dict_ok_def)
  have h3: "dict_ok (grades gpa_example)"
    by (simp add: gpa_example_eq dict_ok_def)
  show ?thesis
    using h1 h2 h3 Student_delete_cascade [OF h1 h2 h3]
    by (simp add: gpa_example_eq)
qed

theorem Enrollment_delete_cascade_witness:
  "dict_get (enrollments gpa_example) 1 =
     Some \<lparr>e_id = 1, e_student_id = 1, e_course_id = 1, e_enrolled_at = ''t7''\<rparr> \<and>
   dict_ok (grades gpa_example) \<and>
   fst (Enrollment_delete 1 gpa_example) = True \<and>
   dict_keys (enrollments (snd (Enrollment_delete 1 gpa_example))) = [2, 3] \<and>
   dict_keys (grades (snd (Enrollment_delete 1 gpa_example))) = [2, 3] \<and>
   students (snd (Enrollment_delete 1 gpa_example)) = students gpa_example \<and>
   courses (snd (Enrollment_delete 1 gpa_example)) = courses gpa_example"
proof -
  have h1: "dict_get (enrollments gpa_example) 1 =
     Some \<lparr>e_id = 1, e_student_id = 1, e_course_id = 1, e_enrolled_at = ''t7''\<rparr>"
    by (simp add: gpa_example_eq)
  have h2: "dict_ok (grades gpa_example)"
    by (simp add: gpa_example_eq dict_ok_def)
  show ?thesis
    using h1 h2 Enrollment_delete_cascade [OF h1 h2]
    by (simp add: gpa_example_eq)
qed

section \<open>Creating an enrollment twice\<close>

lemma find_Some_first:
  "x \<in> set xs \<Longrightarrow> P x \<Longrightarrow> \<exists>y. find P xs = Some y \<and> y \<in> set xs \<and> P y"
  by (induction xs) auto

lemma find_distinct_key:
  assumes "distinct (map f xs)" and "x \<in> set xs" and "y \<in> set xs" and "f x = f y"
  shows "x = y"
  using assms by (meson distinct_map inj_onD)

lemma find_update_fresh:
  assumes "find P (dict_values d) = None" and "P v"
  shows "find P (dict_values (dict_set k v d)) = Some v"
  using assms by (induction d) (auto split: if_splits)

text \<open>
  Claim C3. When the store holds an enrollment of the pair \<open>(student_id, course_id)\<close>,
  \<open>Enrollment_create\<close> returns an enrollment of that pair that is already in the table
  (the one given, when pairs are not repeated in the table) and leaves the whole store as
  it is: no record is added, no identifier is taken, the count is the same. In every
  state a second call with the same pair returns the record and the store of the first.
\<close>

theorem Enrollment_create_idempotent:
  "(e \<in> set (dict_values (enrollments s)) \<and> e_student_id e = student_id \<and>
    e_course_id e = course_id \<longrightarrow>
      (\<exists>e'. e' \<in> set (dict_values (enrollments s)) \<and>
             e_student_id e' = student_id \<and> e_course_id e' = course_id \<and>
             Enrollment_create student_id course_id now s = (e', s) \<and>
             (distinct (map enrollment_pair (dict_values (enrollments s))) \<longrightarrow> e' = e))) \<and>
   Enrollment_create student_id course_id now'
       (snd (Enrollment_create student_id course_id now s))
     = Enrollment_create student_id course_id now s"
proof (intro conjI impI)
  let ?P = "\<lambda>e. e_student_id e = student_id \<and> e_course_id e = course_id"
  assume a: "e \<in> set (dict_values (enrollments s)) \<and> e_student_id e = student_id \<and>
    e_course_id e = course_id"
  then obtain e' where e': "find ?P (dict_values (enrollments s)) = Some e'"
    "e' \<in> set (dict_values (enrollments s))" "?P e'"
    using find_Some_first [of e "dict_values (enrollments s)" ?P] by blast
  have d: "distinct (map enrollment_pair (dict_values (enrollments s))) \<longrightarrow> e' = e"
  proof
    assume "distinct (map enrollment_pair (dict_values (enrollments s)))"
    then show "e' = e"
      using find_distinct_key [of enrollment_pair "dict_values (enrollments s)" e' e] a e'
      by (simp add: enrollment_pair_def)
  qed
  from e' d show "\<exists>e'. e' \<in> set (dict_values (enrollments s)) \<and>
             e_student_id e' = student_id \<and> e_course_id e' = course_id \<and>
             Enrollment_create student_id course_id now s = (e', s) \<and>
             (distinct (map enrollment_pair (dict_values (enrollments s))) \<longrightarrow> e' = e)"
    by (intro exI [of _ e']) (simp add: Enrollment_create_def)
next
  let ?P = "\<lambda>e. e_student_id e = student_id \<and> e_course_id e = course_id"
  show "Enrollment_create student_id course_id now'
       (snd (Enrollment_create student_id course_id now s))
     = Enrollment_create student_id course_id now s"
  proof (cases "find ?P (dict_values (enrollments s))")
    case (Some e0)
    then show ?thesis by (simp add: Enrollment_create_def)
  next
    case None
    let ?e = "\<lparr>e_id = next_enrollment_id s, e_student_id = student_id,
                e_course_id = course_id, e_enrolled_at = now\<rparr>"
    have "find ?P (dict_values (dict_set (next_enrollment_id s) ?e (enrollments s))) = Some ?e"
      using find_update_fresh [OF None, of ?e "next_enrollment_id s"] by simp
    with None show ?thesis by (simp add: Enrollment_create_def Let_def)
  qed
qed

theorem Enrollment_create_idempotent_witness:
  "\<lparr>e_id = 3, e_student_id = 1, e_course_id = 2, e_enrolled_at = ''t9''\<rparr>
     \<in> set (dict_values (enrollments gpa_example)) \<and>
   distinct (map enrollment_pair (dict_values (enrollments gpa_example))) \<and>
   Enrollment_create 1 2 ''t10'' gpa_example =
     (\<lparr>e_id = 3, e_student_id = 1, e_course_id = 2, e_enrolled_at = ''t9''\<rparr>, gpa_example)"
proof -
  let ?e = "\<lparr>e_id = 3, e_student_id = 1, e_course_id = 2, e_enrolled_at = ''t9''\<rparr>"
  have h: "?e \<in> set (dict_values (enrollments gpa_example)) \<and> e_student_id ?e = 1 \<and>
    e_course_id ?e = 2"
    by (simp add: gpa_example_eq)
  have d: "distinct (map enrollment_pair (dict_values (enrollments gpa_example)))"
    by (simp add: gpa_example_eq enrollment_pair_def)
  from Enrollment_create_idempotent [of ?e gpa_example 1 2 "''t10''" "''t10''"] h d
  have "Enrollment_create 1 2 ''t10'' gpa_example = (?e, gpa_example)" by auto
  with h d show ?thesis by simp
qed

section \<open>Search\<close>

lemma lower_jo: "lower ''jo'' = ''jo''" by code_simp
lemma lower_JO: "lower ''JO'' = ''jo''" by code_simp
lemma lower_jos: "lower ''jos'' = ''jos''" by code_simp
lemma lower_q: "lower ''q'' = ''q''" by code_simp
lemma lower_John: "lower ''John Smith'' = ''john smith''" by code_simp
lemma lower_john: "lower ''john@example.com'' = ''john@example.com''" by code_simp
lemma lower_Ann: "lower ''Ann Lee'' = ''ann lee''" by code_simp
lemma lower_josephine: "lower ''josephine@example.com'' = ''josephine@example.com''"
  by code_simp

lemmas lower_examples =
  lower_jo lower_JO lower_jos lower_q lower_John lower_john lower_Ann lower_josephine

text \<open>
  Claim C8. \<open>Student_search\<close> with the empty query returns all students; with any other
  query it returns, in table order, exactly the students for which the lowercased query
  is a contiguous part of the lowercased name or of the lowercased email. Searching
  \<open>jo\<close> (in either case) finds both the student named John Smith and the student whose
  email is josephine@example.com.
\<close>

theorem Student_search_substring:
  "Student_search query s =
     (if query = [] then dict_values (students s)
      else filter (\<lambda>st. sublist (lower query) (lower (s_name st)) \<or>
                         sublist (lower query) (lower (s_email st)))
             (dict_values (students s))) \<and>
   map s_id (Student_search ''jo'' gpa_example) = [1, 2] \<and>
   map s_id (Student_search ''JO'' gpa_example) = [1, 2] \<and>
   map s_id (Student_search ''jos'' gpa_example) = [2] \<and>
   map s_id (Student_search ''q'' gpa_example) = []"
proof (intro conjI)
  show "Student_search query s =
     (if query = [] then dict_values (students s)
      else filter (\<lambda>st. sublist (lower query) (lower (s_name st)) \<or>
                         sublist (lower query) (lower (s_email st)))
             (dict_values (students s)))"
    by (simp add: Student_search_def Student_get_all_def Let_def str_in_sublist)
  show "map s_id (Student_search ''jo'' gpa_example) = [1, 2]"
    by (simp add: Student_search_def gpa_example_eq Let_def lower_examples)
  show "map s_id (Student_search ''JO'' gpa_example) = [1, 2]"
    by (simp add: Student_search_def gpa_example_eq Let_def lower_examples)
  show "map s_id (Student_search ''jos'' gpa_example) = [2]"
    by (simp add: Student_search_def gpa_example_eq Let_def lower_examples)
  show "map s_id (Student_search ''q'' gpa_example) = []"
    by (simp add: Student_search_def gpa_example_eq Let_def lower_examples)
qed

section \<open>The scan of Grade.create\<close>

lemma update_first_None:
  "update_first P f d = None \<longleftrightarrow> (\<forall>v \<in> set (dict_values d). \<not> P v)"
proof (induction d)
  case Nil
  show ?case by simp
next
  case (Cons kv d)
  obtain k v where kv: "kv = (k, v)" by (cases kv)
  show ?case
  proof (cases "P v")
    case True
    with kv show ?thesis by simp
  next
    case False
    with kv Cons.IH show ?thesis by (cases "update_first P f d") auto
  qed
qed

lemma update_first_Some:
  "update_first P f d = Some (r, d') \<Longrightarrow>
     \<exists>pre k v post. d = pre @ (k, v) # post \<and> d' = pre @ (k, f v) # post \<and> r = f v \<and>
       P v \<and> (\<forall>u \<in> set (dict_values pre). \<not> P u)"
proof (induction d arbitrary: d')
  case Nil
  then show ?case by simp
next
  case (Cons kv d)
  obtain k v where kv: "kv = (k, v)" by (cases kv)
  show ?case
  proof (cases "P v")
    case True
    with Cons.prems kv have "d' = (k, f v) # d" "r = f v" by auto
    with True kv show ?thesis
      by (intro exI [of _ "[]"] exI [of _ k] exI [of _ v] exI [of _ d]) simp
  next
    case False
    with Cons.prems kv obtain t where t: "update_first P f d = Some (r, t)" "d' = (k, v) # t"
      by (auto split: option.splits)
    from Cons.IH [OF t(1)] obtain pre k' v' post where
      p: "d = pre @ (k', v') # post" "t = pre @ (k', f v') # post" "r = f v'" "P v'"
         "\<forall>u \<in> set (dict_values pre). \<not> P u"
      by blast
    with False kv t show ?thesis
      by (intro exI [of _ "(k, v) # pre"] exI [of _ k'] exI [of _ v'] exI [of _ post]) simp
  qed
qed

lemma update_first_result:
  "update_first P f d = Some (r, d') \<Longrightarrow> \<exists>v. v \<in> set (dict_values d) \<and> P v \<and> r = f v"
  by (drule update_first_Some) force

section \<open>Points stored by Grade.create\<close>

lemma Grade_create_points:
  "g_points (fst (Grade_create student_id course_id letter_grade points now1 now2 s)) =
     points_or_lookup points letter_grade"
proof -
  let ?P = "\<lambda>g. g_student_id g = student_id \<and> g_course_id g = course_id"
  let ?f = "\<lambda>g. g\<lparr>g_letter_grade := letter_grade,
                     g_points := points_or_lookup points letter_grade,
                     g_updated_at := now1\<rparr>"
  show ?thesis
  proof (cases "update_first ?P ?f (grades s)")
    case None
    then show ?thesis by (simp add: Grade_create_def Let_def)
  next
    case (Some a)
    obtain r d' where a: "a = (r, d')" by (cases a)
    from Some a have "update_first ?P ?f (grades s) = Some (r, d')" by simp
    from update_first_result [OF this] obtain v where "r = ?f v" by blast
    with Some a show ?thesis by (simp add: Grade_create_def)
  qed
qed

lemma letter_to_points_unknown:
  "letter_grade \<notin> set (dict_keys GRADE_POINTS) \<Longrightarrow> letter_to_points letter_grade = Fl 0"
  by (simp add: letter_to_points_def map_of_eq_None_iff [THEN iffD2])

lemma letter_to_points_empty: "letter_to_points '''' = Fl 0"
  by (rule letter_to_points_unknown) (simp add: GRADE_POINTS_def)

text \<open>
  Claim C2 says that an explicit points override is what \<open>Grade_create\<close> stores, and the
  table value of the letter grade otherwise. The stored value is
  \<open>points_or_lookup points letter_grade\<close> (\<open>Grade_create_points\<close>), which is the override
  only when the override is a true value: with the override \<open>0.0\<close> and the letter grade
  \<open>A\<close> the stored points are \<open>4.0\<close>, on the inserting path and on the updating path alike.
  An override of \<open>1.0\<close> is stored as given, and without override the table value is stored.
\<close>

theorem Grade_create_zero_override:
  "g_points (fst (Grade_create 1 1 ''A'' (Some (Fl 0)) ''t1'' ''t2'' init_store)) = Fl 4 \<and>
   g_points (fst (Grade_create 1 1 ''A'' (Some (Fl 0)) ''t10'' ''t11'' gpa_example)) = Fl 4 \<and>
   g_points (fst (Grade_create 1 1 ''A'' (Some (Fl 1)) ''t1'' ''t2'' init_store)) = Fl 1 \<and>
   g_points (fst (Grade_create 1 1 ''A'' None ''t1'' ''t2'' init_store)) = Fl 4"
  by (simp add: Grade_create_points points_or_lookup_def letter_to_points_A)

section \<open>The average does not read the stored points\<close>

lemma gpa_loop_points:
  "gpa_loop cs (map (\<lambda>g. g\<lparr>g_points := p\<rparr>) gs) tp tc = gpa_loop cs gs tp tc"
  by (induction gs arbitrary: tp tc) (auto split: option.splits sum.splits)

lemma filter_erase:
  "filter (\<lambda>g. g_student_id g = student_id)
     (dict_values (map (\<lambda>(k, g). (k, g\<lparr>g_points := p\<rparr>)) d))
   = map (\<lambda>g. g\<lparr>g_points := p\<rparr>)
       (filter (\<lambda>g. g_student_id g = student_id) (dict_values d))"
  by (induction d) auto

lemma calculate_gpa_erase:
  "calculate_gpa (s\<lparr>grades := map (\<lambda>(k, g). (k, g\<lparr>g_points := p\<rparr>)) (grades s)\<rparr>) student_id
     = calculate_gpa s student_id"
proof -
  have "Grade_get_by_student
          (s\<lparr>grades := map (\<lambda>(k, g). (k, g\<lparr>g_points := p\<rparr>)) (grades s)\<rparr>) student_id
        = map (\<lambda>g. g\<lparr>g_points := p\<rparr>) (Grade_get_by_student s student_id)"
    unfolding Grade_get_by_student_def using filter_erase [of student_id p "grades s"]
    by simp
  then show ?thesis
    by (simp add: calculate_gpa_def gpa_loop_points)
qed

lemma calculate_gpa_cong:
  "grades s = grades s' \<Longrightarrow> courses s = courses s' \<Longrightarrow>
     calculate_gpa s student_id = calculate_gpa s' student_id"
  by (simp add: calculate_gpa_def Grade_get_by_student_def Let_def)

lemma calculate_gpa_same_up_to_points:
  assumes "same_up_to_points s s'"
  shows "calculate_gpa s student_id = calculate_gpa s' student_id"
proof -
  let ?e = "\<lambda>s. s\<lparr>grades := map (\<lambda>(k, g). (k, g\<lparr>g_points := Fl 0\<rparr>)) (grades s)\<rparr>"
  have "grades (?e s) = grades (?e s')" "courses (?e s) = courses (?e s')"
    using assms by (simp_all add: same_up_to_points_def)
  then have "calculate_gpa (?e s) student_id = calculate_gpa (?e s') student_id"
    by (rule calculate_gpa_cong)
  then show ?thesis by (simp only: calculate_gpa_erase)
qed

lemma map_dict_set:
  "map (\<lambda>(k, g). (k, e g)) (dict_set k v d) = dict_set k (e v) (map (\<lambda>(k, g). (k, e g)) d)"
  by (induction d) auto

lemma Grade_create_same_up_to_points:
  "same_up_to_points
     (snd (Grade_create student_id course_id letter_grade points now1 now2 s))
     (snd (Grade_create student_id course_id letter_grade points' now1 now2 s))"
proof -
  let ?P = "\<lambda>g. g_student_id g = student_id \<and> g_course_id g = course_id"
  let ?f = "\<lambda>p g. g\<lparr>g_letter_grade := letter_grade,
                     g_points := points_or_lookup p letter_grade,
                     g_updated_at := now1\<rparr>"
  show ?thesis
  proof (cases "update_first ?P (?f points) (grades s)")
    case None
    then have "update_first ?P (?f points') (grades s) = None"
      by (simp add: update_first_None)
    with None show ?thesis
      by (simp add: Grade_create_def Let_def same_up_to_points_def map_dict_set)
  next
    case (Some a)
    obtain r d1 where a: "a = (r, d1)" by (cases a)
    from Some a have s1: "update_first ?P (?f points) (grades s) = Some (r, d1)" by simp
    from update_first_Some [OF s1] obtain pre k v post where
      p: "grades s = pre @ (k, v) # post" "d1 = pre @ (k, ?f points v) # post" "?P v"
         "\<forall>u \<in> set (dict_values pre). \<not> ?P u"
      by blast
    have "update_first Q h (pre @ (k, v) # post) = Some (h v, pre @ (k, h v) # post)"
      if "Q v" "\<forall>u \<in> set (dict_values pre). \<not> Q u" for Q h
      using that by (induction pre) auto
    from this [of ?P "?f points'"] p
    have s2: "update_first ?P (?f points') (grades s) =
                Some (?f points' v, pre @ (k, ?f points' v) # post)"
      by simp
    from s1 s2 p show ?thesis
      by (simp add: Grade_create_def same_up_to_points_def)
  qed
qed

text \<open>
  Claim C10. The result of \<open>calculate_gpa\<close> does not depend on the \<open>points\<close> fields of the
  grades: two stores that differ at most in those fields give the same result for every
  student, and so the points override passed to \<open>Grade_create\<close> has no influence on any
  average computed afterwards.
\<close>

theorem calculate_gpa_ignores_points:
  "(same_up_to_points s s' \<longrightarrow> calculate_gpa s student_id = calculate_gpa s' student_id) \<and>
   calculate_gpa (snd (Grade_create sid cid letter_grade points now1 now2 s)) student_id =
   calculate_gpa (snd (Grade_create sid cid letter_grade points' now1 now2 s)) student_id"
  using calculate_gpa_same_up_to_points Grade_create_same_up_to_points by blast

theorem calculate_gpa_ignores_points_witness:
  "same_up_to_points gpa_example
     (snd (Grade_create 1 1 ''A'' (Some (Fl 1)) ''t3'' ''t3'' gpa_example)) \<and>
   grades gpa_example \<noteq> grades (snd (Grade_create 1 1 ''A'' (Some (Fl 1)) ''t3'' ''t3'' gpa_example)) \<and>
   calculate_gpa gpa_example 1 =
     calculate_gpa (snd (Grade_create 1 1 ''A'' (Some (Fl 1)) ''t3'' ''t3'' gpa_example)) 1"
proof -
  let ?s' = "snd (Grade_create 1 1 ''A'' (Some (Fl 1)) ''t3'' ''t3'' gpa_example)"
  have h: "same_up_to_points gpa_example ?s'"
    by (simp add: gpa_example_eq Grade_create_def points_or_lookup_def same_up_to_points_def)
  have d: "grades gpa_example \<noteq> grades ?s'"
    by (simp add: gpa_example_eq Grade_create_def points_or_lookup_def)
  from calculate_gpa_ignores_points [of gpa_example ?s' 1] h
  have "calculate_gpa gpa_example 1 = calculate_gpa ?s' 1" by blast
  with h d show ?thesis by blast
qed

section \<open>The invariant holds in every run\<close>

lemma dict_set_fresh: "k \<notin> set (dict_keys d) \<Longrightarrow> dict_set k v d = d @ [(k, v)]"
  by (induction d) auto

lemma dict_set_present:
  "(k, v) \<in> set d \<Longrightarrow> dict_ok d \<Longrightarrow>
     \<exists>pre post. d = pre @ (k, v) # post \<and> dict_set k v' d = pre @ (k, v') # post"
proof (induction d)
  case Nil
  then show ?case by simp
next
  case (Cons p d)
  show ?case
  proof (cases "fst p = k")
    case True
    from Cons.prems(2) True have "k \<notin> fst ` set d" by (simp add: dict_ok_def)
    then have "(k, v) \<notin> set d" by force
    with Cons.prems(1) have p: "p = (k, v)" by simp
    show ?thesis
    proof (intro exI conjI)
      show "p # d = [] @ (k, v) # d" using p by simp
      show "dict_set k v' (p # d) = [] @ (k, v') # d" using p by simp
    qed
  next
    case False
    with Cons.prems have "(k, v) \<in> set d" "dict_ok d" by (auto simp: dict_ok_def)
    from Cons.IH [OF this] obtain pre post where
      e: "d = pre @ (k, v) # post" "dict_set k v' d = pre @ (k, v') # post" by blast
    show ?thesis
    proof (intro exI conjI)
      show "p # d = (p # pre) @ (k, v) # post" using e by simp
      show "dict_set k v' (p # d) = (p # pre) @ (k, v') # post"
        using e False by (cases p) simp
    qed
  qed
qed

lemma table_inv_filter: "table_inv ident d n \<Longrightarrow> table_inv ident (filter P d) n"
  unfolding table_inv_def dict_ok_def by (simp add: distinct_map_filter)

lemma table_inv_del: "table_inv ident d n \<Longrightarrow> table_inv ident (dict_del k d) n"
  by (simp add: dict_del_filter table_inv_filter)

lemma table_inv_del_all: "table_inv ident d n \<Longrightarrow> table_inv ident (dict_del_all ks d) n"
  by (simp add: dict_del_all_filter table_inv_filter)

lemma table_inv_entry:
  "table_inv ident d n \<Longrightarrow> (k, v) \<in> set d \<Longrightarrow> ident v = k \<and> 1 \<le> k \<and> k < n"
  unfolding table_inv_def by blast

lemma table_inv_fresh:
  assumes "table_inv ident d n"
  shows "n \<notin> set (dict_keys d)"
proof
  assume "n \<in> set (dict_keys d)"
  then obtain v where "(n, v) \<in> set d" by auto
  from table_inv_entry [OF assms this] show False by simp
qed

lemma table_inv_insert:
  assumes "table_inv ident d n" and "ident v = n"
  shows "table_inv ident (dict_set n v d) (n + 1)"
proof -
  have f: "n \<notin> set (dict_keys d)" using assms(1) by (rule table_inv_fresh)
  then have e: "dict_set n v d = d @ [(n, v)]" by (rule dict_set_fresh)
  have "dict_ok (d @ [(n, v)])"
    using assms(1) f by (simp add: table_inv_def dict_ok_def)
  moreover have "1 \<le> n + 1" using assms(1) by (simp add: table_inv_def)
  moreover have "ident u = k \<and> 1 \<le> k \<and> k < n + 1" if "(k, u) \<in> set (d @ [(n, v)])" for k u
  proof (cases "(k, u) \<in> set d")
    case True
    from table_inv_entry [OF assms(1) this] show ?thesis by simp
  next
    case False
    with that have "k = n" "u = v" by auto
    with assms show ?thesis by (simp add: table_inv_def)
  qed
  ultimately show ?thesis unfolding e table_inv_def by blast
qed

lemma table_inv_replace:
  assumes "table_inv ident (pre @ (k, v) # post) n" and "ident v' = ident v"
  shows "table_inv ident (pre @ (k, v') # post) n"
proof -
  have "dict_ok (pre @ (k, v') # post)"
    using assms(1) by (simp add: table_inv_def dict_ok_def)
  moreover have "1 \<le> n" using assms(1) by (simp add: table_inv_def)
  moreover have "ident u = j \<and> 1 \<le> j \<and> j < n" if "(j, u) \<in> set (pre @ (k, v') # post)" for j u
  proof (cases "(j, u) = (k, v')")
    case True
    have "(k, v) \<in> set (pre @ (k, v) # post)" by simp
    from table_inv_entry [OF assms(1) this] True assms(2) show ?thesis by simp
  next
    case False
    with that have "(j, u) \<in> set (pre @ (k, v) # post)" by auto
    from table_inv_entry [OF assms(1) this] show ?thesis .
  qed
  ultimately show ?thesis unfolding table_inv_def by blast
qed

lemma table_inv_update:
  assumes "table_inv ident d n" and "dict_get d k = Some v" and "ident v' = ident v"
  shows "table_inv ident (dict_set k v' d) n"
proof -
  from assms(2) have a: "(k, v) \<in> set d" by (rule map_of_SomeD)
  from assms(1) have b: "dict_ok d" by (simp add: table_inv_def)
  from dict_set_present [OF a b, of v'] obtain pre post where
    e: "d = pre @ (k, v) # post" "dict_set k v' d = pre @ (k, v') # post"
    by blast
  from assms(1) e(1) have "table_inv ident (pre @ (k, v) # post) n" by simp
  from table_inv_replace [OF this assms(3)] e(2) show ?thesis by simp
qed

lemma table_inv_mono:
  assumes "table_inv ident d n" and "n \<le> m"
  shows "table_inv ident d m"
proof -
  have "ident u = k \<and> 1 \<le> k \<and> k < m" if "(k, u) \<in> set d" for k u
    using table_inv_entry [OF assms(1) that] assms(2) by simp
  moreover from assms have "dict_ok d" "1 \<le> m" by (simp_all add: table_inv_def)
  ultimately show ?thesis unfolding table_inv_def by blast
qed

lemma distinct_pairs_filter:
  "distinct (map (f \<circ> snd) d) \<Longrightarrow> distinct (map (f \<circ> snd) (filter P d))"
  by (rule distinct_map_filter)

lemma find_None_pair:
  "find (\<lambda>x. f x = a) xs = None \<Longrightarrow> a \<notin> set (map f xs)"
  by (induction xs) (auto split: if_splits)

lemma distinct_pairs_del:
  "distinct (map (f \<circ> snd) d) \<Longrightarrow> distinct (map (f \<circ> snd) (dict_del k d))"
  by (simp only: dict_del_filter distinct_pairs_filter)

lemma distinct_pairs_del_all:
  "distinct (map (f \<circ> snd) d) \<Longrightarrow> distinct (map (f \<circ> snd) (dict_del_all ks d))"
  by (simp only: dict_del_all_filter distinct_pairs_filter)

lemma distinct_pairs_insert:
  assumes "distinct (map (f \<circ> snd) d)" and "k \<notin> set (dict_keys d)"
    and "f v \<notin> (f \<circ> snd) ` set d"
  shows "distinct (map (f \<circ> snd) (dict_set k v d))"
  using assms by (simp add: dict_set_fresh)

lemma find_None_enrollment:
  "find (\<lambda>e. e_student_id e = a \<and> e_course_id e = b) (dict_values d) = None \<Longrightarrow>
     (a, b) \<notin> (enrollment_pair \<circ> snd) ` set d"
  by (induction d) (auto simp: enrollment_pair_def split: if_splits)

lemma none_grade_pair:
  "\<forall>g \<in> set (dict_values d). \<not> (g_student_id g = a \<and> g_course_id g = b) \<Longrightarrow>
     (a, b) \<notin> (grade_pair \<circ> snd) ` set d"
  by (induction d) (auto simp: grade_pair_def)

subsection \<open>Each operation keeps the invariant\<close>

lemma inv_Student_create:
  "store_inv s \<Longrightarrow> store_inv (snd (Student_create name email phone address now1 now2 s))"
  by (simp add: store_inv_def Student_create_def Let_def table_inv_insert)

lemma inv_Course_create:
  "store_inv s \<Longrightarrow> store_inv (snd (Course_create code name description credits now1 now2 s))"
  by (simp add: store_inv_def Course_create_def Let_def table_inv_insert)

lemma inv_Student_update:
  "store_inv s \<Longrightarrow> store_inv (snd (Student_update student_id name email phone address now s))"
  by (cases "dict_get (students s) student_id")
    (simp_all add: store_inv_def Student_update_def Let_def table_inv_update)

lemma inv_Course_update:
  "store_inv s \<Longrightarrow>
     store_inv (snd (Course_update course_id code name description credits now s))"
  by (cases "dict_get (courses s) course_id")
    (simp_all add: store_inv_def Course_update_def Let_def table_inv_update)

lemma inv_Enrollment_delete_by_student:
  "store_inv s \<Longrightarrow> store_inv (Enrollment_delete_by_student student_id s)"
  by (simp add: store_inv_def Enrollment_delete_by_student_def Let_def table_inv_del_all
      distinct_pairs_del_all)

lemma inv_Enrollment_delete_by_course:
  "store_inv s \<Longrightarrow> store_inv (Enrollment_delete_by_course course_id s)"
  by (simp add: store_inv_def Enrollment_delete_by_course_def Let_def table_inv_del_all
      distinct_pairs_del_all)

lemma inv_Grade_delete_by_student:
  "store_inv s \<Longrightarrow> store_inv (Grade_delete_by_student student_id s)"
  by (simp add: store_inv_def Grade_delete_by_student_def Let_def table_inv_del_all
      distinct_pairs_del_all)

lemma inv_Grade_delete_by_course:
  "store_inv s \<Longrightarrow> store_inv (Grade_delete_by_course course_id s)"
  by (simp add: store_inv_def Grade_delete_by_course_def Let_def table_inv_del_all
      distinct_pairs_del_all)

lemma inv_Grade_delete_by_student_course:
  "store_inv s \<Longrightarrow> store_inv (Grade_delete_by_student_course student_id course_id s)"
  by (simp add: store_inv_def Grade_delete_by_student_course_def Let_def table_inv_del_all
      distinct_pairs_del_all)

lemma inv_Grade_delete: "store_inv s \<Longrightarrow> store_inv (snd (Grade_delete grade_id s))"
  by (simp add: store_inv_def Grade_delete_def table_inv_del distinct_pairs_del)

lemma inv_students_del:
  "store_inv s \<Longrightarrow> store_inv (s\<lparr>students := dict_del k (students s)\<rparr>)"
  by (simp add: store_inv_def table_inv_del)

lemma inv_courses_del:
  "store_inv s \<Longrightarrow> store_inv (s\<lparr>courses := dict_del k (courses s)\<rparr>)"
  by (simp add: store_inv_def table_inv_del)

lemma inv_enrollments_del:
  "store_inv s \<Longrightarrow> store_inv (s\<lparr>enrollments := dict_del k (enrollments s)\<rparr>)"
  by (simp add: store_inv_def table_inv_del distinct_pairs_del)

lemma inv_Student_delete: "store_inv s \<Longrightarrow> store_inv (snd (Student_delete student_id s))"
  by (simp add: Student_delete_def Let_def inv_students_del
      inv_Enrollment_delete_by_student inv_Grade_delete_by_student)

lemma inv_Course_delete: "store_inv s \<Longrightarrow> store_inv (snd (Course_delete course_id s))"
  by (simp add: Course_delete_def Let_def inv_courses_del
      inv_Enrollment_delete_by_course inv_Grade_delete_by_course)

lemma inv_Enrollment_delete:
  "store_inv s \<Longrightarrow> store_inv (snd (Enrollment_delete enrollment_id s))"
  by (cases "dict_get (enrollments s) enrollment_id")
    (simp_all add: Enrollment_delete_def Let_def inv_enrollments_del
      inv_Grade_delete_by_student_course)

lemma inv_Enrollment_create:
  assumes "store_inv s"
  shows "store_inv (snd (Enrollment_create student_id course_id now s))"
proof (cases "find (\<lambda>e. e_student_id e = student_id \<and> e_course_id e = course_id)
               (dict_values (enrollments s))")
  case (Some e)
  with assms show ?thesis by (simp add: Enrollment_create_def)
next
  case None
  let ?n = "next_enrollment_id s"
  let ?e = "\<lparr>e_id = ?n, e_student_id = student_id, e_course_id = course_id,
              e_enrolled_at = now\<rparr>"
  from assms have t: "table_inv e_id (enrollments s) ?n"
    and d: "distinct (map (enrollment_pair \<circ> snd) (enrollments s))"
    by (simp_all add: store_inv_def)
  have "enrollment_pair ?e \<notin> (enrollment_pair \<circ> snd) ` set (enrollments s)"
    using find_None_enrollment [OF None] by (simp add: enrollment_pair_def)
  with d table_inv_fresh [OF t]
  have "distinct (map (enrollment_pair \<circ> snd) (dict_set ?n ?e (enrollments s)))"
    by (rule distinct_pairs_insert)
  moreover have "table_inv e_id (dict_set ?n ?e (enrollments s)) (?n + 1)"
    using t by (rule table_inv_insert) simp
  ultimately show ?thesis
    using assms None by (simp add: Enrollment_create_def Let_def store_inv_def)
qed

lemma inv_Grade_create:
  assumes "store_inv s"
  shows "store_inv (snd (Grade_create student_id course_id letter_grade points now1 now2 s))"
proof -
  let ?P = "\<lambda>g. g_student_id g = student_id \<and> g_course_id g = course_id"
  let ?f = "\<lambda>g. g\<lparr>g_letter_grade := letter_grade,
                     g_points := points_or_lookup points letter_grade,
                     g_updated_at := now1\<rparr>"
  from assms have t: "table_inv g_id (grades s) (next_grade_id s)"
    and d: "distinct (map (grade_pair \<circ> snd) (grades s))"
    by (simp_all add: store_inv_def)
  show ?thesis
  proof (cases "update_first ?P ?f (grades s)")
    case None
    let ?n = "next_grade_id s"
    let ?g = "\<lparr>g_id = ?n, g_student_id = student_id, g_course_id = course_id,
                g_letter_grade = letter_grade,
                g_points = points_or_lookup points letter_grade,
                g_created_at = now1, g_updated_at = now2\<rparr>"
    from None have "\<forall>g \<in> set (dict_values (grades s)). \<not> ?P g"
      by (simp only: update_first_None)
    then have "grade_pair ?g \<notin> (grade_pair \<circ> snd) ` set (grades s)"
      using none_grade_pair [of "grades s" student_id course_id]
      by (simp add: grade_pair_def)
    with d table_inv_fresh [OF t]
    have "distinct (map (grade_pair \<circ> snd) (dict_set ?n ?g (grades s)))"
      by (rule distinct_pairs_insert)
    moreover have "table_inv g_id (dict_set ?n ?g (grades s)) (?n + 1)"
      using t by (rule table_inv_insert) simp
    ultimately show ?thesis
      using assms None by (simp add: Grade_create_def Let_def store_inv_def)
  next
    case (Some a)
    obtain r d' where a: "a = (r, d')" by (cases a)
    with Some have u: "update_first ?P ?f (grades s) = Some (r, d')" by simp
    from update_first_Some [OF u] obtain pre k v post where
      e: "grades s = pre @ (k, v) # post" "d' = pre @ (k, ?f v) # post"
      by blast
    from t e(1) have "table_inv g_id (pre @ (k, v) # post) (next_grade_id s)" by simp
    then have "table_inv g_id d' (next_grade_id s)"
      unfolding e(2) by (rule table_inv_replace) simp
    moreover have "map (grade_pair \<circ> snd) d' = map (grade_pair \<circ> snd) (grades s)"
      using e by (simp add: grade_pair_def)
    ultimately show ?thesis
      using assms u d by (simp add: Grade_create_def store_inv_def)
  qed
qed

lemma inv_apply_op: "store_inv s \<Longrightarrow> store_inv (apply_op op s)"
  by (cases op)
    (simp_all add: inv_Student_create inv_Student_update inv_Student_delete
      inv_Course_create inv_Course_update inv_Course_delete
      inv_Enrollment_create inv_Enrollment_delete inv_Enrollment_delete_by_student
      inv_Enrollment_delete_by_course inv_Grade_create inv_Grade_delete
      inv_Grade_delete_by_student inv_Grade_delete_by_course
      inv_Grade_delete_by_student_course)

lemma inv_run: "store_inv s \<Longrightarrow> store_inv (run ops s)"
  unfolding run_def by (induction ops arbitrary: s) (simp_all add: inv_apply_op)

lemma inv_init: "store_inv init_store"
  by (simp add: store_inv_def init_store_def table_inv_def dict_ok_def)

lemma inv_reachable: "store_inv (run ops init_store)"
  using inv_init by (rule inv_run)

section \<open>Identifiers\<close>

lemma table_inv_ids:
  assumes "table_inv ident d n"
  shows "map ident (dict_values d) = dict_keys d"
proof -
  have "ident (snd p) = fst p" if "p \<in> set d" for p
    using table_inv_entry [OF assms, of "fst p" "snd p"] that by simp
  then show ?thesis by simp
qed

lemma table_inv_distinct_ids:
  "table_inv ident d n \<Longrightarrow> distinct (map ident (dict_values d))"
  by (simp only: table_inv_ids) (simp add: table_inv_def dict_ok_def)

lemma table_inv_get:
  assumes "table_inv ident d n" and "v \<in> set (dict_values d)"
  shows "dict_get d (ident v) = Some v"
proof -
  from assms(2) obtain k where k: "(k, v) \<in> set d" by auto
  from table_inv_entry [OF assms(1) this] have "ident v = k" by simp
  moreover from assms(1) have "distinct (dict_keys d)" by (simp add: table_inv_def dict_ok_def)
  ultimately show ?thesis using k by simp
qed

lemma counters_apply_op:
  "next_student_id s \<le> next_student_id (apply_op op s) \<and>
   next_course_id s \<le> next_course_id (apply_op op s) \<and>
   next_enrollment_id s \<le> next_enrollment_id (apply_op op s) \<and>
   next_grade_id s \<le> next_grade_id (apply_op op s)"
  by (cases op)
    (auto simp: Student_create_def Student_update_def Student_delete_def
      Course_create_def Course_update_def Course_delete_def
      Enrollment_create_def Enrollment_delete_def
      Enrollment_delete_by_student_def Enrollment_delete_by_course_def
      Grade_create_def Grade_delete_def Grade_delete_by_student_def
      Grade_delete_by_course_def Grade_delete_by_student_course_def Let_def
      split: option.splits prod.splits)

lemma counters_run:
  "next_student_id s \<le> next_student_id (run ops s) \<and>
   next_course_id s \<le> next_course_id (run ops s) \<and>
   next_enrollment_id s \<le> next_enrollment_id (run ops s) \<and>
   next_grade_id s \<le> next_grade_id (run ops s)"
proof (induction ops arbitrary: s)
  case Nil
  show ?case by (simp add: run_def)
next
  case (Cons op ops)
  from Cons.IH [of "apply_op op s"] counters_apply_op [of s op]
  show ?case by (simp add: run_def)
qed

lemma Student_create_id:
  "s_id (fst (Student_create name email phone address now1 now2 s)) = next_student_id s \<and>
   next_student_id (snd (Student_create name email phone address now1 now2 s)) =
     next_student_id s + 1"
  by (simp add: Student_create_def Let_def)

lemma Course_create_id:
  "c_id (fst (Course_create code name description credits now1 now2 s)) = next_course_id s \<and>
   next_course_id (snd (Course_create code name description credits now1 now2 s)) =
     next_course_id s + 1"
  by (simp add: Course_create_def Let_def)

lemma Enrollment_create_id:
  assumes "\<forall>e \<in> set (dict_values (enrollments s)).
             \<not> (e_student_id e = student_id \<and> e_course_id e = course_id)"
  shows "e_id (fst (Enrollment_create student_id course_id now s)) = next_enrollment_id s \<and>
         next_enrollment_id (snd (Enrollment_create student_id course_id now s)) =
           next_enrollment_id s + 1"
proof -
  from assms have "find (\<lambda>e. e_student_id e = student_id \<and> e_course_id e = course_id)
                     (dict_values (enrollments s)) = None"
    by (simp only: find_None_iff) blast
  then show ?thesis by (simp add: Enrollment_create_def Let_def)
qed

lemma Grade_create_id:
  assumes "\<forall>g \<in> set (dict_values (grades s)).
             \<not> (g_student_id g = student_id \<and> g_course_id g = course_id)"
  shows "g_id (fst (Grade_create student_id course_id letter_grade points now1 now2 s)) =
           next_grade_id s \<and>
         next_grade_id (snd (Grade_create student_id course_id letter_grade points now1 now2 s)) =
           next_grade_id s + 1"
proof -
  from assms have "update_first
             (\<lambda>g. g_student_id g = student_id \<and> g_course_id g = course_id)
             (\<lambda>g. g\<lparr>g_letter_grade := letter_grade,
                     g_points := points_or_lookup points letter_grade,
                     g_updated_at := now1\<rparr>)
             (grades s) = None"
    by (simp only: update_first_None)
  then show ?thesis by (simp add: Grade_create_def Let_def)
qed

lemma create_delete_create:
  "s_id (fst (Student_create name email phone address now1 now2 init_store)) = 1 \<and>
   s_id (fst (Student_create name' email' phone' address' now1' now2'
     (snd (Student_delete 1
        (snd (Student_create name email phone address now1 now2 init_store)))))) = 2"
  by (simp add: Student_create_def Student_delete_def Enrollment_delete_by_student_def
      Grade_delete_by_student_def init_store_def dict_contains_def Let_def)

lemma Student_create_later:
  "s_id (fst (Student_create name email phone address now1 now2 s)) <
   s_id (fst (Student_create name' email' phone' address' now1' now2'
     (run ops (snd (Student_create name email phone address now1 now2 s)))))"
  using counters_run [of "snd (Student_create name email phone address now1 now2 s)" ops]
  by (simp add: Student_create_id)

lemma ids_distinct_reachable:
  "distinct (map s_id (dict_values (students (run ops init_store)))) \<and>
   distinct (map c_id (dict_values (courses (run ops init_store)))) \<and>
   distinct (map e_id (dict_values (enrollments (run ops init_store)))) \<and>
   distinct (map g_id (dict_values (grades (run ops init_store))))"
proof -
  let ?s = "run ops init_store"
  from inv_reachable [of ops] have
    "table_inv s_id (students ?s) (next_student_id ?s)"
    "table_inv c_id (courses ?s) (next_course_id ?s)"
    "table_inv e_id (enrollments ?s) (next_enrollment_id ?s)"
    "table_inv g_id (grades ?s) (next_grade_id ?s)"
    by (simp_all add: store_inv_def)
  then show ?thesis by (intro conjI table_inv_distinct_ids)
qed

text \<open>
  Claim C7. The four counters are 1 in the empty store and never decrease in a run.
  A created student or course gets the counter's value as its identifier and the counter
  goes up by one; so does a created enrollment or grade when no record of its pair exists
  (otherwise the existing record is returned). Creating a student A in the empty store gives
  identifier 1, and after deleting A the next student gets 2; in general a student created
  after any further run gets a larger identifier than one created before. In every
  reachable store the invariant holds (keys distinct and below the counter, each record
  carrying its key), so the identifiers in each table are pairwise distinct.
\<close>

theorem identifiers_never_reused:
  "(next_student_id init_store = 1 \<and> next_course_id init_store = 1 \<and>
    next_enrollment_id init_store = 1 \<and> next_grade_id init_store = 1) \<and>
   (next_student_id s \<le> next_student_id (run ops s) \<and>
    next_course_id s \<le> next_course_id (run ops s) \<and>
    next_enrollment_id s \<le> next_enrollment_id (run ops s) \<and>
    next_grade_id s \<le> next_grade_id (run ops s)) \<and>
   (s_id (fst (Student_create name email phone address now1 now2 s)) = next_student_id s \<and>
    next_student_id (snd (Student_create name email phone address now1 now2 s)) =
      next_student_id s + 1) \<and>
   (c_id (fst (Course_create code cname description credits now1 now2 s)) = next_course_id s \<and>
    next_course_id (snd (Course_create code cname description credits now1 now2 s)) =
      next_course_id s + 1) \<and>
   ((\<forall>e \<in> set (dict_values (enrollments s)).
       \<not> (e_student_id e = student_id \<and> e_course_id e = course_id)) \<longrightarrow>
    e_id (fst (Enrollment_create student_id course_id now1 s)) = next_enrollment_id s \<and>
    next_enrollment_id (snd (Enrollment_create student_id course_id now1 s)) =
      next_enrollment_id s + 1) \<and>
   ((\<forall>g \<in> set (dict_values (grades s)).
       \<not> (g_student_id g = student_id \<and> g_course_id g = course_id)) \<longrightarrow>
    g_id (fst (Grade_create student_id course_id letter_grade points now1 now2 s)) =
      next_grade_id s \<and>
    next_grade_id (snd (Grade_create student_id course_id letter_grade points now1 now2 s)) =
      next_grade_id s + 1) \<and>
   (s_id (fst (Student_create name email phone address now1 now2 init_store)) = 1 \<and>
    s_id (fst (Student_create name' email' phone' address' now1' now2'
      (snd (Student_delete 1
         (snd (Student_create name email phone address now1 now2 init_store)))))) = 2) \<and>
   s_id (fst (Student_create name email phone address now1 now2 s)) <
     s_id (fst (Student_create name' email' phone' address' now1' now2'
       (run ops (snd (Student_create name email phone address now1 now2 s))))) \<and>
   store_inv (run ops init_store) \<and>
   (distinct (map s_id (dict_values (students (run ops init_store)))) \<and>
    distinct (map c_id (dict_values (courses (run ops init_store)))) \<and>
    distinct (map e_id (dict_values (enrollments (run ops init_store)))) \<and>
    distinct (map g_id (dict_values (grades (run ops init_store)))))"
  using counters_run [of s ops] Student_create_id Course_create_id
    Enrollment_create_id [of s student_id course_id now1]
    Grade_create_id [of s student_id course_id letter_grade points now1 now2]
    create_delete_create Student_create_later inv_reachable [of ops]
    ids_distinct_reachable [of ops]
  by (simp add: init_store_def)

section \<open>Create, then get\<close>

lemma find_Some_mem: "find P xs = Some x \<Longrightarrow> x \<in> set xs"
  by (induction xs) (auto split: if_splits)

lemma Enrollment_roundtrip:
  assumes "store_inv s"
  shows "Enrollment_get (snd (Enrollment_create student_id course_id now s))
           (e_id (fst (Enrollment_create student_id course_id now s)))
         = Some (fst (Enrollment_create student_id course_id now s))"
proof (cases "find (\<lambda>e. e_student_id e = student_id \<and> e_course_id e = course_id)
               (dict_values (enrollments s))")
  case None
  then show ?thesis
    by (simp add: Enrollment_create_def Enrollment_get_def Let_def update_conv')
next
  case (Some e)
  from assms have "table_inv e_id (enrollments s) (next_enrollment_id s)"
    by (simp add: store_inv_def)
  from table_inv_get [OF this find_Some_mem [OF Some]] Some show ?thesis
    by (simp add: Enrollment_create_def Enrollment_get_def)
qed

lemma Grade_roundtrip:
  assumes "store_inv s"
  shows "Grade_get (snd (Grade_create student_id course_id letter_grade points now1 now2 s))
           (g_id (fst (Grade_create student_id course_id letter_grade points now1 now2 s)))
         = Some (fst (Grade_create student_id course_id letter_grade points now1 now2 s))"
proof -
  let ?r = "Grade_create student_id course_id letter_grade points now1 now2 s"
  from inv_Grade_create [OF assms]
  have t: "table_inv g_id (grades (snd ?r)) (next_grade_id (snd ?r))"
    by (simp add: store_inv_def)
  have "fst ?r \<in> set (dict_values (grades (snd ?r)))"
  proof (cases "update_first
             (\<lambda>g. g_student_id g = student_id \<and> g_course_id g = course_id)
             (\<lambda>g. g\<lparr>g_letter_grade := letter_grade,
                     g_points := points_or_lookup points letter_grade,
                     g_updated_at := now1\<rparr>)
             (grades s)")
    case None
    then show ?thesis
      using map_of_SomeD [of "dict_set (next_grade_id s) (fst ?r) (grades s)"
          "next_grade_id s" "fst ?r"]
      by (simp add: Grade_create_def Let_def update_conv') force
  next
    case (Some a)
    obtain r d' where a: "a = (r, d')" by (cases a)
    with Some have u: "update_first
             (\<lambda>g. g_student_id g = student_id \<and> g_course_id g = course_id)
             (\<lambda>g. g\<lparr>g_letter_grade := letter_grade,
                     g_points := points_or_lookup points letter_grade,
                     g_updated_at := now1\<rparr>)
             (grades s) = Some (r, d')" by simp
    from update_first_Some [OF u] obtain pre k v post where
      "d' = pre @ (k, r) # post" by blast
    then have "r \<in> set (dict_values d')" by simp
    with u show ?thesis by (simp add: Grade_create_def)
  qed
  from table_inv_get [OF t this] show ?thesis by (simp add: Grade_get_def)
qed

text \<open>
  Claim C9. Looking up the identifier of the record that \<open>create\<close> returned, in the store
  that \<open>create\<close> left, gives that record: for students and courses in every store, for
  enrollments and grades (whose \<open>create\<close> may return an existing record) in every store
  the program can reach.
\<close>

theorem create_then_get:
  "Student_get (snd (Student_create name email phone address now1 now2 s))
     (s_id (fst (Student_create name email phone address now1 now2 s)))
   = Some (fst (Student_create name email phone address now1 now2 s)) \<and>
   Course_get (snd (Course_create code cname description credits now1 now2 s))
     (c_id (fst (Course_create code cname description credits now1 now2 s)))
   = Some (fst (Course_create code cname description credits now1 now2 s)) \<and>
   Enrollment_get (snd (Enrollment_create student_id course_id now1 (run ops init_store)))
     (e_id (fst (Enrollment_create student_id course_id now1 (run ops init_store))))
   = Some (fst (Enrollment_create student_id course_id now1 (run ops init_store))) \<and>
   Grade_get
     (snd (Grade_create student_id course_id letter_grade points now1 now2 (run ops init_store)))
     (g_id (fst (Grade_create student_id course_id letter_grade points now1 now2
                   (run ops init_store))))
   = Some (fst (Grade_create student_id course_id letter_grade points now1 now2
                  (run ops init_store)))"
  using Enrollment_roundtrip [OF inv_reachable] Grade_roundtrip [OF inv_reachable]
  by (simp add: Student_create_def Student_get_def Course_create_def Course_get_def Let_def
      update_conv')

end
